theory Spec2Isabelle
  imports Main
begin

section \<open>JavaScript values\<close>

text \<open>
  The chart description reaches the server as the \<open>arguments\<close> of a tool call, typed
  \<open>any\<close>: every test the code makes on it is a dynamic one. The model therefore works
  on a datatype of JavaScript values.

  \<^item> A number is modelled by an integer (the integer-valued doubles); the only tests the
    program makes on a number are its truthiness and its identity.
  \<^item> A string is a list of code units in the range U+0000 to U+00FF.
  \<^item> An object is the list of its own properties in enumeration order: the array-index
    names in ascending numeric order first, the other names in creation order after them.
  \<^item> The only function value the program creates is the arrow function
    \<open>(value: number) => value\<close> of the gauge branch.
\<close>

datatype func = EchoValue


datatype jsval =
    JUndefined
  | JNull
  | JBool bool
  | JNum int
  | JStr string
  | JArr "jsval list"
  | JObj "(string \<times> jsval) list"
  | JFunc func

type_synonym props = "(string \<times> jsval) list"

text \<open>\<open>!v\<close> is \<open>\<not> truthy v\<close>.\<close>

fun truthy :: "jsval \<Rightarrow> bool" where
  "truthy JUndefined = False"
| "truthy JNull = False"
| "truthy (JBool b) = b"
| "truthy (JNum n) = (n \<noteq> 0)"
| "truthy (JStr s) = (s \<noteq> [])"
| "truthy (JArr xs) = True"
| "truthy (JObj ps) = True"
| "truthy (JFunc f) = True"

text \<open>\<open>a || b\<close> and \<open>a && b\<close>, both operands already evaluated (neither has an effect).\<close>

definition js_or :: "jsval \<Rightarrow> jsval \<Rightarrow> jsval" where
  "js_or a b = (if truthy a then a else b)"

definition js_and :: "jsval \<Rightarrow> jsval \<Rightarrow> jsval" where
  "js_and a b = (if truthy a then b else a)"

fun isArray :: "jsval \<Rightarrow> bool" where
  "isArray (JArr xs) = True"
| "isArray v = False"

fun elems :: "jsval \<Rightarrow> jsval list" where
  "elems (JArr xs) = xs"
| "elems v = []"

text \<open>\<open>typeof v === 'object'\<close>: objects, arrays and \<open>null\<close>.\<close>

fun typeof_object :: "jsval \<Rightarrow> bool" where
  "typeof_object JNull = True"
| "typeof_object (JArr xs) = True"
| "typeof_object (JObj ps) = True"
| "typeof_object v = False"

subsection \<open>Property names\<close>

text \<open>Decimal digits, and the decimal form of a non-negative integer.\<close>

definition digits :: string where
  "digits = ''0123456789''"

definition is_digit :: "char \<Rightarrow> bool" where
  "is_digit c \<longleftrightarrow> c \<in> set digits"

definition digit_val :: "char \<Rightarrow> int" where
  "digit_val c = of_char c - 48"

definition digit_char :: "int \<Rightarrow> char" where
  "digit_char d = digits ! nat d"

function show_dec :: "int \<Rightarrow> string" where
  "show_dec n = (if n < 10 then [digit_char n] else show_dec (n div 10) @ [digit_char (n mod 10)])"
  by pat_completeness auto
termination
  by (relation "measure nat") auto

declare show_dec.simps [simp del]

definition read_dec :: "string \<Rightarrow> int" where
  "read_dec s = foldl (\<lambda>acc c. 10 * acc + digit_val c) 0 s"

text \<open>
  An array index is the canonical decimal form of an integer below \<open>2^32 - 1\<close>; these
  are the property names an object enumerates first, in numeric order.
\<close>

fun canonical_digits :: "string \<Rightarrow> bool" where
  "canonical_digits [] = False"
| "canonical_digits [c] = is_digit c"
| "canonical_digits (c # cs) = (c \<noteq> CHR ''0'' \<and> list_all is_digit (c # cs))"

definition is_array_index :: "string \<Rightarrow> bool" where
  "is_array_index k \<longleftrightarrow> canonical_digits k \<and> read_dec k < 4294967295"

definition enumerates_before :: "string \<Rightarrow> string \<Rightarrow> bool" where
  "enumerates_before k k' \<longleftrightarrow>
     is_array_index k \<and> (is_array_index k' \<longrightarrow> read_dec k < read_dec k')"

subsection \<open>Reading and writing properties\<close>

text \<open>
  \<open>set_prop k v ps\<close> is \<open>CreateDataProperty\<close> (and, on these plain objects, assignment): an
  existing property keeps its place and takes the new value, a new one goes to its place
  in the enumeration order.
\<close>

fun replace_prop :: "string \<Rightarrow> jsval \<Rightarrow> props \<Rightarrow> props" where
  "replace_prop k v [] = []"
| "replace_prop k v ((k', v') # ps) =
     (if k = k' then (k, v) # ps else (k', v') # replace_prop k v ps)"

fun insert_prop :: "string \<Rightarrow> jsval \<Rightarrow> props \<Rightarrow> props" where
  "insert_prop k v [] = [(k, v)]"
| "insert_prop k v ((k', v') # ps) =
     (if enumerates_before k k' then (k, v) # (k', v') # ps
      else (k', v') # insert_prop k v ps)"

definition set_prop :: "string \<Rightarrow> jsval \<Rightarrow> props \<Rightarrow> props" where
  "set_prop k v ps =
     (if k \<in> set (map fst ps) then replace_prop k v ps else insert_prop k v ps)"

text \<open>The names \<open>0\<close>, \<open>1\<close>, ... under which an array of \<open>n\<close> elements (or a string of
  \<open>n\<close> characters) holds them.\<close>

definition index_names :: "nat \<Rightarrow> string list" where
  "index_names n = map (\<lambda>i. show_dec (int i)) [0..<n]"

text \<open>
  The own enumerable properties of a value, as object spread \<open>{...v}\<close> copies them: those
  of an object, the elements of an array and the characters of a string under their
  indices, and nothing for any other value (\<open>undefined\<close> and \<open>null\<close> included).
\<close>

fun own_props :: "jsval \<Rightarrow> props" where
  "own_props (JObj ps) = ps"
| "own_props (JArr xs) = zip (index_names (length xs)) xs"
| "own_props (JStr s) = zip (index_names (length s)) (map (\<lambda>c. JStr [c]) s)"
| "own_props v = []"

text \<open>\<open>spread v target\<close> continues an object literal whose properties so far are \<open>target\<close>
  with \<open>...v\<close>.\<close>

definition spread :: "jsval \<Rightarrow> props \<Rightarrow> props" where
  "spread v target = foldl (\<lambda>acc (k, x). set_prop k x acc) target (own_props v)"

text \<open>
  \<open>get_prop k v\<close> is \<open>v.k\<close> (or \<open>v[k]\<close>): the own property of that name, \<open>undefined\<close> when
  there is none. That is the result for a name that no prototype defines, which holds of
  every name the program reads: \<open>type\<close>, \<open>labels\<close>, \<open>datasets\<close>, \<open>title\<close>, \<open>options\<close>,
  \<open>data\<close>, \<open>label\<close>, \<open>backgroundColor\<close>, \<open>borderColor\<close>, \<open>additionalConfig\<close>, \<open>config\<close>,
  \<open>outputPath\<close> and \<open>0\<close>. On \<open>undefined\<close> and \<open>null\<close> the access raises a TypeError in
  JavaScript; the program reads a property of a value only after it has found the value
  truthy, or through \<open>?.\<close>, which is \<open>opt_prop\<close>.
\<close>

definition get_prop :: "string \<Rightarrow> jsval \<Rightarrow> jsval" where
  "get_prop k v = (case map_of (own_props v) k of Some x \<Rightarrow> x | None \<Rightarrow> JUndefined)"

fun opt_prop :: "string \<Rightarrow> jsval \<Rightarrow> jsval" where
  "opt_prop k JUndefined = JUndefined"
| "opt_prop k JNull = JUndefined"
| "opt_prop k v = get_prop k v"

section \<open>Errors\<close>

datatype ErrorCode = InvalidParams | InternalError | MethodNotFound

datatype McpError = McpError ErrorCode string

section \<open>The configuration normalizer\<close>

definition QUICKCHART_BASE_URL :: string where
  "QUICKCHART_BASE_URL = ''https://quickchart.io/chart''"

definition validTypes :: "string list" where
  "validTypes = [''bar'', ''line'', ''pie'', ''doughnut'', ''radar'',
                 ''polarArea'', ''scatter'', ''bubble'', ''radialGauge'', ''speedometer'']"

fun join :: "string \<Rightarrow> string list \<Rightarrow> string" where
  "join sep [] = []"
| "join sep [x] = x"
| "join sep (x # y # ys) = x @ sep @ join sep (y # ys)"

text \<open>\<open>validTypes.includes(type)\<close> compares with SameValueZero: only a string equals a
  string.\<close>

fun includes_type :: "string list \<Rightarrow> jsval \<Rightarrow> bool" where
  "includes_type ts (JStr s) = (s \<in> set ts)"
| "includes_type ts v = False"

definition validateChartType :: "jsval \<Rightarrow> McpError + unit" where
  "validateChartType type =
     (if \<not> includes_type validTypes type
      then Inl (McpError InvalidParams
                 (''Invalid chart type. Must be one of: '' @ join '', '' validTypes))
      else Inr ())"

text \<open>The callback of \<open>datasets.map\<close>.\<close>

definition map_dataset :: "jsval \<Rightarrow> McpError + jsval" where
  "map_dataset dataset =
     (if \<not> truthy dataset \<or> \<not> truthy (get_prop ''data'' dataset)
      then Inl (McpError InvalidParams ''Each dataset must have a data property'')
      else Inr (JObj
        (spread (js_or (get_prop ''additionalConfig'' dataset) (JObj []))
          [(''label'', js_or (get_prop ''label'' dataset) (JStr [])),
           (''data'', get_prop ''data'' dataset),
           (''backgroundColor'', get_prop ''backgroundColor'' dataset),
           (''borderColor'', get_prop ''borderColor'' dataset)])))"

text \<open>\<open>xs.map(f)\<close> where \<open>f\<close> may throw: the first exception ends the traversal.\<close>

fun map_throwing :: "('a \<Rightarrow> 'e + 'b) \<Rightarrow> 'a list \<Rightarrow> 'e + 'b list" where
  "map_throwing f [] = Inr []"
| "map_throwing f (x # xs) =
     (case f x of
        Inl e \<Rightarrow> Inl e
      | Inr y \<Rightarrow> (case map_throwing f xs of Inl e \<Rightarrow> Inl e | Inr ys \<Rightarrow> Inr (y # ys)))"

text \<open>The callback of \<open>datasets.forEach\<close> in the scatter and bubble branch; \<open>t\<close> is the
  chart type, a string there, and \<open>first_point dataset\<close> is \<open>dataset.data[0]\<close>.\<close>

definition first_point :: "jsval \<Rightarrow> jsval" where
  "first_point dataset = get_prop ''0'' (get_prop ''data'' dataset)"

definition check_point :: "string \<Rightarrow> jsval \<Rightarrow> McpError + unit" where
  "check_point t dataset =
     (if \<not> isArray (first_point dataset)
      then Inl (McpError InvalidParams
                 (t @ '' requires data points in [x, y'' @
                  (if t = ''bubble'' then '', r'' else '''') @ ''] format''))
      else Inr ())"

fun forEach_throwing :: "('a \<Rightarrow> 'e + unit) \<Rightarrow> 'a list \<Rightarrow> 'e + unit" where
  "forEach_throwing f [] = Inr ()"
| "forEach_throwing f (x # xs) =
     (case f x of Inl e \<Rightarrow> Inl e | Inr u \<Rightarrow> forEach_throwing f xs)"

text \<open>The destructuring default \<open>options = {}\<close> applies to \<open>undefined\<close> only.\<close>

fun default_to :: "jsval \<Rightarrow> jsval \<Rightarrow> jsval" where
  "default_to JUndefined d = d"
| "default_to v d = v"

definition title_block :: "jsval \<Rightarrow> jsval" where
  "title_block title =
     JObj [(''title'', JObj [(''display'', JBool True), (''text'', title)])]"

definition datalabels_plugins :: jsval where
  "datalabels_plugins =
     JObj [(''datalabels'', JObj [(''display'', JBool True), (''formatter'', JFunc EchoValue)])]"

text \<open>
  The \<open>switch (type)\<close> at the end of \<open>generateChartConfig\<close>; \<open>config\<close> is the object
  built before it and \<open>first_value datasets\<close> is \<open>datasets?.[0]?.data?.[0]\<close>.
\<close>

definition first_value :: "jsval \<Rightarrow> jsval" where
  "first_value datasets = opt_prop ''0'' (opt_prop ''data'' (opt_prop ''0'' datasets))"

definition special_handling :: "jsval \<Rightarrow> jsval \<Rightarrow> jsval \<Rightarrow> McpError + jsval" where
  "special_handling type datasets config =
     (if type = JStr ''radialGauge'' \<or> type = JStr ''speedometer'' then
        (if \<not> truthy (first_value datasets)
         then Inl (McpError InvalidParams
                    ((case type of JStr t \<Rightarrow> t | _ \<Rightarrow> []) @ '' requires a single numeric value''))
         else Inr (JObj (set_prop ''options''
                 (JObj (set_prop ''plugins'' datalabels_plugins
                          (spread (get_prop ''options'' config) [])))
                 (own_props config))))
      else if type = JStr ''scatter'' \<or> type = JStr ''bubble'' then
        (case forEach_throwing (check_point (case type of JStr t \<Rightarrow> t | _ \<Rightarrow> [])) (elems datasets) of
           Inl e \<Rightarrow> Inl e
         | Inr u \<Rightarrow> Inr config)
      else Inr config)"

definition generateChartConfig :: "jsval \<Rightarrow> McpError + jsval" where
  "generateChartConfig args =
     (if \<not> truthy args
      then Inl (McpError InvalidParams ''No arguments provided to generateChartConfig'')
      else if \<not> truthy (get_prop ''type'' args)
      then Inl (McpError InvalidParams ''Chart type is required'')
      else if \<not> truthy (get_prop ''datasets'' args) \<or> \<not> isArray (get_prop ''datasets'' args)
      then Inl (McpError InvalidParams ''Datasets must be a non-empty array'')
      else
        let type = get_prop ''type'' args;
            labels = get_prop ''labels'' args;
            datasets = get_prop ''datasets'' args;
            title = get_prop ''title'' args;
            options = default_to (get_prop ''options'' args) (JObj [])
        in
          case validateChartType type of
            Inl e \<Rightarrow> Inl e
          | Inr u \<Rightarrow>
             (case map_throwing map_dataset (elems datasets) of
                Inl e \<Rightarrow> Inl e
              | Inr ds \<Rightarrow>
                  special_handling type datasets
                    (JObj [(''type'', type),
                           (''data'', JObj [(''labels'', js_or labels (JArr [])),
                                            (''datasets'', JArr ds)]),
                           (''options'',
                              JObj (spread (js_and title (title_block title))
                                      (spread options [])))])))"

section \<open>The request dispatcher\<close>

subsection \<open>Building the URL\<close>

text \<open>
  \<open>JSON.stringify\<close> without indentation. A value that is \<open>undefined\<close> or a function has
  no JSON text (\<open>None\<close>): as a member of an object it is left out, as an element of an
  array it is written \<open>null\<close>. A number is written in decimal, which is how JavaScript
  writes an integer of magnitude below \<open>10^21\<close>.
\<close>

definition dquote :: char where
  "dquote = CHR 0x22"

definition backslash :: char where
  "backslash = CHR 0x5C"

definition hex_lower :: string where
  "hex_lower = ''0123456789abcdef''"

definition hex_upper :: string where
  "hex_upper = ''0123456789ABCDEF''"

definition code_of :: "char \<Rightarrow> int" where
  "code_of c = of_char c"

text \<open>\<open>QuoteJSONString\<close>, one code unit at a time.\<close>

definition escape_char :: "char \<Rightarrow> string" where
  "escape_char c =
     (if c = dquote then [backslash, dquote]
      else if c = backslash then [backslash, backslash]
      else if c = CHR 0x08 then [backslash, CHR ''b'']
      else if c = CHR 0x09 then [backslash, CHR ''t'']
      else if c = CHR 0x0A then [backslash, CHR ''n'']
      else if c = CHR 0x0C then [backslash, CHR ''f'']
      else if c = CHR 0x0D then [backslash, CHR ''r'']
      else if code_of c < 32
        then [backslash, CHR ''u'', CHR ''0'', CHR ''0'',
              hex_lower ! nat (code_of c div 16), hex_lower ! nat (code_of c mod 16)]
      else [c])"

definition quote :: "string \<Rightarrow> string" where
  "quote s = dquote # concat (map escape_char s) @ [dquote]"

definition show_int :: "int \<Rightarrow> string" where
  "show_int n = (if n < 0 then CHR ''-'' # show_dec (- n) else show_dec n)"

fun JSON_stringify :: "jsval \<Rightarrow> string option"
  and stringify_elements :: "jsval list \<Rightarrow> string list"
  and stringify_members :: "props \<Rightarrow> string list" where
  "JSON_stringify JUndefined = None"
| "JSON_stringify (JFunc f) = None"
| "JSON_stringify JNull = Some ''null''"
| "JSON_stringify (JBool b) = Some (if b then ''true'' else ''false'')"
| "JSON_stringify (JNum n) = Some (show_int n)"
| "JSON_stringify (JStr s) = Some (quote s)"
| "JSON_stringify (JArr xs) = Some (''['' @ join '','' (stringify_elements xs) @ '']'')"
| "JSON_stringify (JObj ps) = Some (''{'' @ join '','' (stringify_members ps) @ ''}'')"
| "stringify_elements [] = []"
| "stringify_elements (x # xs) =
     (case JSON_stringify x of None \<Rightarrow> ''null'' | Some text \<Rightarrow> text) # stringify_elements xs"
| "stringify_members [] = []"
| "stringify_members ((k, v) # ps) =
     (case JSON_stringify v of
        None \<Rightarrow> stringify_members ps
      | Some text \<Rightarrow> (quote k @ '':'' @ text) # stringify_members ps)"

text \<open>
  \<open>encodeURIComponent\<close>: the unreserved characters stay, every other code unit is
  written as the percent-escaped bytes of its UTF-8 form, one byte below U+0080 and two
  bytes from U+0080 to U+00FF.
\<close>

definition unreserved :: "char \<Rightarrow> bool" where
  "unreserved c \<longleftrightarrow>
     c \<in> set ''ABCDEFGHIJKLMNOPQRSTUVWXYZabcdefghijklmnopqrstuvwxyz0123456789-_.!~*()''
     \<or> c = CHR 0x27"

definition percent_byte :: "int \<Rightarrow> string" where
  "percent_byte b = [CHR ''%'', hex_upper ! nat (b div 16), hex_upper ! nat (b mod 16)]"

definition encode_char :: "char \<Rightarrow> string" where
  "encode_char c =
     (if unreserved c then [c]
      else if code_of c < 128 then percent_byte (code_of c)
      else percent_byte (192 + code_of c div 64) @ percent_byte (128 + code_of c mod 64))"

definition encodeURIComponent :: "string \<Rightarrow> string" where
  "encodeURIComponent s = concat (map encode_char s)"

text \<open>\<open>encodeURIComponent(undefined)\<close> is the text \<open>undefined\<close>.\<close>

definition generateChartUrl :: "jsval \<Rightarrow> string" where
  "generateChartUrl config =
     QUICKCHART_BASE_URL @ ''?c='' @
       encodeURIComponent (case JSON_stringify config of None \<Rightarrow> ''undefined'' | Some text \<Rightarrow> text)"

subsection \<open>Reading a URL back\<close>














subsection \<open>Exceptions and effects\<close>

text \<open>
  An exception is an \<open>McpError\<close> or any other error object, of which the handlers read
  the \<open>code\<close> and the \<open>message\<close>. The handlers run in a host whose file system, clock,
  network and path functions are parameters of the model, and they leave a trace of the
  effects they had, in order.
\<close>

datatype exception =
    Mcp McpError
  | Other (err_code: string) (err_message: string)

datatype fault =
    DestructureUndefined
  | PathNotString jsval

record host =
  homedir :: string
  writable :: "string \<Rightarrow> bool"
  now_iso :: string
  http_get :: "string \<Rightarrow> exception + string"
  write_file :: "string \<Rightarrow> string \<Rightarrow> exception option"
  path_join :: "string \<Rightarrow> string \<Rightarrow> string"
  path_dirname :: "string \<Rightarrow> string"
  to_string :: "jsval \<Rightarrow> string"
  fault_message :: "fault \<Rightarrow> string"

datatype io_event =
    Access string
  | ConsoleError string
  | Fetch string
  | WriteFile string string

type_synonym 'a io = "io_event list \<times> (exception + 'a)"

definition return_io :: "'a \<Rightarrow> 'a io" where
  "return_io x = ([], Inr x)"

definition throw_io :: "exception \<Rightarrow> 'a io" where
  "throw_io e = ([], Inl e)"

definition bind_io :: "'a io \<Rightarrow> ('a \<Rightarrow> 'b io) \<Rightarrow> 'b io" where
  "bind_io m f =
     (case m of
        (events, Inl e) \<Rightarrow> (events, Inl e)
      | (events, Inr x) \<Rightarrow> (case f x of (events', r) \<Rightarrow> (events @ events', r)))"

definition lift_result :: "McpError + 'a \<Rightarrow> 'a io" where
  "lift_result r = (case r of Inl e \<Rightarrow> throw_io (Mcp e) | Inr x \<Rightarrow> return_io x)"

subsection \<open>The shape adapter of \<open>download_chart\<close>\<close>

text \<open>One of the three \<open>if\<close> statements that copy a member of \<open>config.data\<close> into
  \<open>normalizedConfig\<close>.\<close>

definition lift_member :: "string \<Rightarrow> jsval \<Rightarrow> props \<Rightarrow> props" where
  "lift_member name config normalizedConfig =
     (if truthy (get_prop ''data'' config) \<and> typeof_object (get_prop ''data'' config) \<and>
         truthy (get_prop name (get_prop ''data'' config)) \<and>
         \<not> truthy (get_prop name (JObj normalizedConfig))
      then set_prop name (get_prop name (get_prop ''data'' config)) normalizedConfig
      else normalizedConfig)"

definition lift_nested :: "jsval \<Rightarrow> props" where
  "lift_nested config =
     lift_member ''type'' config
       (lift_member ''labels'' config
         (lift_member ''datasets'' config (spread config [])))"

definition adapt_config :: "jsval \<Rightarrow> McpError + jsval" where
  "adapt_config config =
     (if \<not> truthy config \<or> \<not> typeof_object config
      then Inl (McpError InvalidParams ''Config must be a valid chart configuration object'')
      else if \<not> truthy (get_prop ''type'' (JObj (lift_nested config))) \<or>
              \<not> truthy (get_prop ''datasets'' (JObj (lift_nested config)))
      then Inl (McpError InvalidParams
        ''Config must include type and datasets properties (either at root level or inside data object)'')
      else Inr (JObj (lift_nested config)))"

subsection \<open>The output path\<close>

text \<open>
  \<open>new Date().toISOString().replace(/:/g, '-').replace(/\..+/, '').replace('T', '_')\<close>,
  on the ISO text of the host's clock (a single line).
\<close>

fun cut_fraction :: "string \<Rightarrow> string" where
  "cut_fraction [] = []"
| "cut_fraction (c # cs) = (if c = CHR ''.'' \<and> cs \<noteq> [] then [] else c # cut_fraction cs)"

fun replace_first :: "char \<Rightarrow> char \<Rightarrow> string \<Rightarrow> string" where
  "replace_first a b [] = []"
| "replace_first a b (c # cs) = (if c = a then b # cs else c # replace_first a b cs)"

definition timestamp :: "string \<Rightarrow> string" where
  "timestamp isoString =
     replace_first (CHR ''T'') (CHR ''_'')
       (cut_fraction (map (\<lambda>c. if c = CHR '':'' then CHR ''-'' else c) isoString))"

definition default_output_path :: "host \<Rightarrow> jsval \<Rightarrow> string io" where
  "default_output_path h normalizedConfig =
     (let desktopDir = path_join h (homedir h) ''Desktop'';
          baseDir = (if writable h desktopDir then desktopDir else homedir h);
          chartType = js_or (get_prop ''type'' normalizedConfig) (JStr ''chart'');
          outputPath = path_join h baseDir (to_string h chartType @ ''_'' @ timestamp (now_iso h) @ ''.png'')
      in ([Access desktopDir] @
          (if writable h desktopDir then []
           else [ConsoleError ''Desktop not accessible, using home directory instead'']) @
          [ConsoleError (''No output path provided, using: '' @ outputPath)],
          Inr outputPath))"

text \<open>The path the image goes to: the caller's, or the derived one when the caller's is
  falsy. \<open>path.dirname\<close> raises a TypeError on a path that is not a string.\<close>

definition resolve_output_path :: "host \<Rightarrow> jsval \<Rightarrow> jsval \<Rightarrow> string io" where
  "resolve_output_path h normalizedConfig userProvidedPath =
     (if \<not> truthy userProvidedPath then default_output_path h normalizedConfig
      else case userProvidedPath of
             JStr p \<Rightarrow> return_io p
           | v \<Rightarrow> throw_io (Other [] (fault_message h (PathNotString v))))"

definition check_output_dir :: "host \<Rightarrow> string \<Rightarrow> unit io" where
  "check_output_dir h outputPath =
     (let outputDir = path_dirname h outputPath
      in ([Access outputDir],
          if writable h outputDir then Inr ()
          else Inl (Mcp (McpError InvalidParams
                 (''Output directory does not exist or is not writable: '' @ outputDir)))))"

subsection \<open>Fetching and writing\<close>

text \<open>The \<open>catch\<close> around the fetch and the write.\<close>

definition classify_write_error :: "string \<Rightarrow> exception \<Rightarrow> exception" where
  "classify_write_error outputPath error =
     (case error of
        Mcp e \<Rightarrow> Mcp e
      | Other code message \<Rightarrow>
          if code = ''EACCES'' \<or> code = ''EROFS''
          then Mcp (McpError InvalidParams (''Cannot write to '' @ outputPath @ '': Permission denied''))
          else if code = ''ENOENT''
          then Mcp (McpError InvalidParams
                 (''Cannot write to '' @ outputPath @ '': Directory does not exist''))
          else Other code message)"

definition fetch_and_write :: "host \<Rightarrow> string \<Rightarrow> string \<Rightarrow> unit io" where
  "fetch_and_write h url outputPath =
     (case http_get h url of
        Inl error \<Rightarrow> ([Fetch url], Inl (classify_write_error outputPath error))
      | Inr body \<Rightarrow>
         (case write_file h outputPath body of
            Some error \<Rightarrow>
              ([Fetch url, WriteFile outputPath body], Inl (classify_write_error outputPath error))
          | None \<Rightarrow> ([Fetch url, WriteFile outputPath body], Inr ())))"

text \<open>The effects that reach the network or write a file.\<close>

fun is_fetch_or_write :: "io_event \<Rightarrow> bool" where
  "is_fetch_or_write (Fetch url) = True"
| "is_fetch_or_write (WriteFile path body) = True"
| "is_fetch_or_write e = False"

subsection \<open>The tool handlers\<close>

text \<open>The outer \<open>catch\<close> of a handler: an \<open>McpError\<close> passes, anything else becomes an
  internal error that quotes its message.\<close>

definition rethrow :: "string \<Rightarrow> exception + 'a \<Rightarrow> McpError + 'a" where
  "rethrow prefix r =
     (case r of
        Inr x \<Rightarrow> Inr x
      | Inl (Mcp e) \<Rightarrow> Inl e
      | Inl (Other code message) \<Rightarrow>
          Inl (McpError InternalError
                (prefix @ (if message = [] then ''Unknown error'' else message))))"

definition generate_chart :: "jsval \<Rightarrow> McpError + string" where
  "generate_chart arguments =
     (case generateChartConfig arguments of
        Inl e \<Rightarrow> Inl e
      | Inr config \<Rightarrow> Inr (generateChartUrl config))"

text \<open>Destructuring \<open>{ config, outputPath }\<close> from the arguments raises a TypeError when
  there are none.\<close>

definition read_arguments :: "host \<Rightarrow> jsval \<Rightarrow> (jsval \<times> jsval) io" where
  "read_arguments h arguments =
     (if arguments = JUndefined \<or> arguments = JNull
      then throw_io (Other [] (fault_message h DestructureUndefined))
      else return_io (get_prop ''config'' arguments, get_prop ''outputPath'' arguments))"

text \<open>Everything \<open>download_chart\<close> does before the fetch: it yields the URL and the output
  path.\<close>

definition prepare_download :: "host \<Rightarrow> jsval \<Rightarrow> (string \<times> string) io" where
  "prepare_download h arguments =
     bind_io (read_arguments h arguments) (\<lambda>(config, userProvidedPath).
     bind_io (lift_result (adapt_config config)) (\<lambda>normalizedConfig.
     bind_io (resolve_output_path h normalizedConfig userProvidedPath) (\<lambda>outputPath.
     bind_io (check_output_dir h outputPath) (\<lambda>u.
     bind_io (lift_result (generateChartConfig normalizedConfig)) (\<lambda>chartConfig.
     return_io (generateChartUrl chartConfig, outputPath))))))"

definition download_chart :: "host \<Rightarrow> jsval \<Rightarrow> io_event list \<times> (McpError + string)" where
  "download_chart h arguments =
     (case bind_io (prepare_download h arguments) (\<lambda>(url, outputPath).
             bind_io (fetch_and_write h url outputPath) (\<lambda>u.
             return_io (''Chart saved to '' @ outputPath))) of
        (events, r) \<Rightarrow> (events, rethrow ''Failed to download chart: '' r))"

definition call_tool :: "host \<Rightarrow> string \<Rightarrow> jsval \<Rightarrow> io_event list \<times> (McpError + string)" where
  "call_tool h name arguments =
     (if name = ''generate_chart'' then ([], generate_chart arguments)
      else if name = ''download_chart'' then download_chart h arguments
      else ([], Inl (McpError MethodNotFound (''Unknown tool: '' @ name))))"

section \<open>Properties of the value model\<close>

lemma map_of_replace_prop:
  "k \<in> fst ` set ps \<Longrightarrow> map_of (replace_prop k v ps) = (map_of ps)(k \<mapsto> v)"
proof (induction ps)
  case Nil
  then show ?case by simp
next
  case (Cons p ps)
  obtain k' v' where p: "p = (k', v')" by (cases p)
  show ?case
  proof (cases "k = k'")
    case True
    then show ?thesis by (simp add: p fun_eq_iff)
  next
    case False
    with Cons.prems have "k \<in> fst ` set ps" by (auto simp: p)
    from Cons.IH [OF this] False show ?thesis by (simp add: p fun_eq_iff)
  qed
qed

lemma map_of_insert_prop:
  "map_of ps k = None \<Longrightarrow> map_of (insert_prop k v ps) = (map_of ps)(k \<mapsto> v)"
  by (induction ps) (auto simp: fun_eq_iff split: if_splits)

lemma map_of_set_prop: "map_of (set_prop k v ps) = (map_of ps)(k \<mapsto> v)"
  by (simp add: set_prop_def map_of_replace_prop map_of_insert_prop map_of_eq_None_iff)

lemma keys_replace_prop: "map fst (replace_prop k v ps) = map fst ps"
  by (induction ps) auto

lemma keys_insert_prop: "fst ` set (insert_prop k v ps) = insert k (fst ` set ps)"
proof (induction ps)
  case Nil
  show ?case by simp
next
  case (Cons p ps)
  obtain k' v' where p: "p = (k', v')" by (cases p)
  from Cons show ?case by (simp add: p insert_commute)
qed

lemma distinct_insert_prop:
  "k \<notin> fst ` set ps \<Longrightarrow> distinct (map fst ps) \<Longrightarrow> distinct (map fst (insert_prop k v ps))"
proof (induction ps)
  case Nil
  show ?case by simp
next
  case (Cons p ps)
  obtain k' v' where p: "p = (k', v')" by (cases p)
  from Cons.prems have "k' \<notin> fst ` set (insert_prop k v ps)"
    unfolding keys_insert_prop by (auto simp: p)
  with Cons show ?case by (auto simp: p)
qed

lemma keys_set_prop: "fst ` set (set_prop k v ps) = insert k (fst ` set ps)"
proof (cases "k \<in> fst ` set ps")
  case True
  have "fst ` set (replace_prop k v ps) = set (map fst (replace_prop k v ps))" by simp
  also have "\<dots> = fst ` set ps" unfolding keys_replace_prop by simp
  finally show ?thesis using True by (auto simp: set_prop_def)
next
  case False
  then show ?thesis by (simp add: set_prop_def keys_insert_prop)
qed

lemma distinct_set_prop:
  "distinct (map fst ps) \<Longrightarrow> distinct (map fst (set_prop k v ps))"
  by (simp add: set_prop_def keys_replace_prop distinct_insert_prop)

lemma distinct_foldl_set_prop:
  "distinct (map fst target) \<Longrightarrow>
   distinct (map fst (foldl (\<lambda>acc (k, x). set_prop k x acc) target ps))"
  by (induction ps arbitrary: target) (auto simp: distinct_set_prop)

lemma distinct_spread: "distinct (map fst target) \<Longrightarrow> distinct (map fst (spread v target))"
  by (simp add: spread_def distinct_foldl_set_prop)

lemma map_of_foldl_set_prop:
  "map_of (foldl (\<lambda>acc (k, x). set_prop k x acc) target ps) = map_of target ++ map_of (rev ps)"
proof (induction ps arbitrary: target)
  case Nil
  show ?case by simp
next
  case (Cons p ps)
  obtain k x where p: "p = (k, x)" by (cases p)
  have "map_of (foldl (\<lambda>acc (k, x). set_prop k x acc) target (p # ps)) =
        map_of (set_prop k x target) ++ map_of (rev ps)"
    using Cons.IH [of "set_prop k x target"] by (simp add: p)
  also have "\<dots> = map_of target ++ map_of (rev (p # ps))"
    by (simp add: p map_of_set_prop fun_eq_iff map_add_def split: option.splits)
  finally show ?case .
qed

lemma map_of_spread:
  "map_of (spread v target) = map_of target ++ map_of (rev (own_props v))"
  by (simp add: spread_def map_of_foldl_set_prop)

lemma map_of_rev_distinct: "distinct (map fst ps) \<Longrightarrow> map_of (rev ps) = map_of ps"
  by (rule map_of_inject_set [THEN iffD2]) (auto simp: distinct_rev rev_map [symmetric])

lemma get_prop_JObj: "get_prop k (JObj ps) = (case map_of ps k of Some x \<Rightarrow> x | None \<Rightarrow> JUndefined)"
  by (simp add: get_prop_def)

lemma get_prop_not_undefined_truthy: "get_prop k v \<noteq> JUndefined \<Longrightarrow> truthy v"
  by (cases v) (auto simp: get_prop_def)

lemma isArray_truthy: "isArray v \<Longrightarrow> truthy v"
  by (cases v) auto

lemma isArray_elems: "isArray v \<Longrightarrow> v = JArr (elems v)"
  by (cases v) auto

lemma includes_type_validTypes:
  "includes_type validTypes v \<longleftrightarrow> (\<exists>t. v = JStr t \<and> t \<in> set validTypes)"
  by (cases v) auto

lemma join_validTypes:
  "join '', '' validTypes =
     ''bar, line, pie, doughnut, radar, polarArea, scatter, bubble, radialGauge, speedometer''"
  by (simp add: validTypes_def)

lemma map_throwing_Inl:
  "map_throwing f xs = Inl e \<Longrightarrow> \<exists>x \<in> set xs. f x = Inl e"
  by (induction xs) (auto split: sum.splits)

lemma map_throwing_Inr:
  "(\<forall>x \<in> set xs. \<exists>y. f x = Inr y) \<Longrightarrow> \<exists>ys. map_throwing f xs = Inr ys \<and> length ys = length xs"
  by (induction xs) (auto split: sum.splits)

lemma map_throwing_Inr_iff:
  "(\<exists>ys. map_throwing f xs = Inr ys) \<longleftrightarrow> (\<forall>x \<in> set xs. \<exists>y. f x = Inr y)"
  by (induction xs) (auto split: sum.splits)

lemma forEach_throwing_Inl:
  "forEach_throwing f xs = Inl e \<Longrightarrow> \<exists>x \<in> set xs. f x = Inl e"
  by (induction xs) (auto split: sum.splits)

lemma forEach_throwing_Inr_iff:
  "forEach_throwing f xs = Inr () \<longleftrightarrow> (\<forall>x \<in> set xs. f x = Inr ())"
  by (induction xs) (auto split: sum.splits)

lemma map_dataset_Inl:
  "map_dataset d = Inl e \<Longrightarrow> e = McpError InvalidParams ''Each dataset must have a data property''"
  by (auto simp: map_dataset_def split: if_splits)

lemma map_dataset_Inr_iff:
  "(\<exists>y. map_dataset d = Inr y) \<longleftrightarrow> truthy d \<and> truthy (get_prop ''data'' d)"
  by (auto simp: map_dataset_def)

lemma check_point_Inl: "check_point t d = Inl e \<Longrightarrow> \<exists>m. e = McpError InvalidParams m"
  by (auto simp: check_point_def split: if_splits)

lemma check_point_Inr_iff: "check_point t d = Inr () \<longleftrightarrow> isArray (first_point d)"
  by (auto simp: check_point_def)

lemma first_point_truthy:
  assumes "isArray (first_point d)"
  shows "truthy d \<and> truthy (get_prop ''data'' d)"
proof -
  have 1: "get_prop ''0'' (get_prop ''data'' d) \<noteq> JUndefined"
    using assms by (auto simp: first_point_def)
  then have 2: "truthy (get_prop ''data'' d)" by (rule get_prop_not_undefined_truthy)
  then have "get_prop ''data'' d \<noteq> JUndefined" by auto
  then have "truthy d" by (rule get_prop_not_undefined_truthy)
  with 2 show ?thesis by simp
qed

lemma generateChartConfig_past_gates:
  assumes "truthy args" and "get_prop ''type'' args = JStr t" and "t \<in> set validTypes"
    and "get_prop ''datasets'' args = JArr ds"
  shows "generateChartConfig args =
     (case map_throwing map_dataset ds of
        Inl e \<Rightarrow> Inl e
      | Inr cds \<Rightarrow>
          special_handling (JStr t) (JArr ds)
            (JObj [(''type'', JStr t),
                   (''data'', JObj [(''labels'', js_or (get_prop ''labels'' args) (JArr [])),
                                    (''datasets'', JArr cds)]),
                   (''options'',
                      JObj (spread (js_and (get_prop ''title'' args) (title_block (get_prop ''title'' args)))
                              (spread (default_to (get_prop ''options'' args) (JObj [])) [])))]))"
proof -
  have "t \<noteq> []" using assms(3) by (auto simp: validTypes_def)
  moreover have "validateChartType (JStr t) = Inr ()"
    using assms(3) by (simp add: validateChartType_def)
  ultimately show ?thesis
    using assms(1,2,4) by (simp add: generateChartConfig_def Let_def)
qed

lemma special_handling_other:
  assumes "t \<notin> {''radialGauge'', ''speedometer'', ''scatter'', ''bubble''}"
  shows "special_handling (JStr t) datasets config = Inr config"
  using assms by (simp add: special_handling_def)

lemma special_handling_gauge:
  assumes "t \<in> {''radialGauge'', ''speedometer''}"
  shows "special_handling (JStr t) datasets config =
     (if \<not> truthy (first_value datasets)
      then Inl (McpError InvalidParams (t @ '' requires a single numeric value''))
      else Inr (JObj (set_prop ''options''
                 (JObj (set_prop ''plugins'' datalabels_plugins
                          (spread (get_prop ''options'' config) [])))
                 (own_props config))))"
  using assms by (auto simp: special_handling_def)

lemma special_handling_points:
  assumes "t \<in> {''scatter'', ''bubble''}"
  shows "special_handling (JStr t) datasets config =
     (case forEach_throwing (check_point t) (elems datasets) of
        Inl e \<Rightarrow> Inl e
      | Inr u \<Rightarrow> Inr config)"
  using assms by (auto simp: special_handling_def)

lemma get_prop_set_prop: "get_prop k' (JObj (set_prop k v ps)) = (if k' = k then v else get_prop k' (JObj ps))"
  by (simp add: get_prop_JObj map_of_set_prop)

text \<open>The configuration object as it stands before the \<open>switch\<close>.\<close>

lemma generateChartConfig_Inr_cases:
  assumes "generateChartConfig args = Inr config"
  obtains t ds cds where "truthy args" and "get_prop ''type'' args = JStr t"
    and "t \<in> set validTypes" and "get_prop ''datasets'' args = JArr ds"
    and "map_throwing map_dataset ds = Inr cds"
    and "special_handling (JStr t) (JArr ds)
            (JObj [(''type'', JStr t),
                   (''data'', JObj [(''labels'', js_or (get_prop ''labels'' args) (JArr [])),
                                    (''datasets'', JArr cds)]),
                   (''options'',
                      JObj (spread (js_and (get_prop ''title'' args) (title_block (get_prop ''title'' args)))
                              (spread (default_to (get_prop ''options'' args) (JObj [])) [])))])
          = Inr config"
proof -
  have 1: "truthy args" and 2: "truthy (get_prop ''type'' args)"
    and 3: "isArray (get_prop ''datasets'' args)"
    using assms by (auto simp: generateChartConfig_def split: if_splits)
  have "validateChartType (get_prop ''type'' args) = Inr ()"
    using assms 1 2 3 by (auto simp: generateChartConfig_def Let_def isArray_truthy split: sum.splits)
  then have "includes_type validTypes (get_prop ''type'' args)"
    by (auto simp: validateChartType_def split: if_splits)
  then obtain t where t: "get_prop ''type'' args = JStr t" "t \<in> set validTypes"
    unfolding includes_type_validTypes by blast
  obtain ds where ds: "get_prop ''datasets'' args = JArr ds"
    using isArray_elems [OF 3] by blast
  from assms show ?thesis
    unfolding generateChartConfig_past_gates [OF 1 t ds]
    using that [OF 1 t ds] by (auto split: sum.splits)
qed

lemma generateChartConfig_error_code:
  assumes "generateChartConfig args = Inl e"
  shows "\<exists>m. e = McpError InvalidParams m"
proof (cases "truthy args \<and> truthy (get_prop ''type'' args) \<and> isArray (get_prop ''datasets'' args)")
  case False
  with assms show ?thesis
    by (auto simp: generateChartConfig_def split: if_splits)
next
  case True
  show ?thesis
  proof (cases "validateChartType (get_prop ''type'' args)")
    case (Inl e')
    with True assms have "e = e'"
      by (simp add: generateChartConfig_def Let_def isArray_truthy)
    with Inl show ?thesis by (auto simp: validateChartType_def split: if_splits)
  next
    case (Inr u)
    then have "includes_type validTypes (get_prop ''type'' args)"
      by (auto simp: validateChartType_def split: if_splits)
    then obtain t where t: "get_prop ''type'' args = JStr t" "t \<in> set validTypes"
      unfolding includes_type_validTypes by blast
    obtain ds where ds: "get_prop ''datasets'' args = JArr ds"
      using True isArray_elems by blast
    note gen = generateChartConfig_past_gates [OF _ t ds]
    show ?thesis
    proof (cases "map_throwing map_dataset ds")
      case (Inl e')
      with True assms gen have "e = e'" by simp
      with Inl show ?thesis
        using map_throwing_Inl [of map_dataset ds e'] map_dataset_Inl by blast
    next
      case (Inr cds)
      with True assms gen
      obtain config where sh: "special_handling (JStr t) (JArr ds) config = Inl e"
        by auto
      then show ?thesis
        by (auto simp: special_handling_def split: if_splits sum.splits
                 dest!: forEach_throwing_Inl check_point_Inl)
    qed
  qed
qed

lemma index_names_Suc: "index_names (Suc n) = ''0'' # map (\<lambda>i. show_dec (int i)) [1..<Suc n]"
proof -
  have "show_dec 0 = ''0''" by (simp add: show_dec.simps digit_char_def digits_def)
  then show ?thesis by (simp add: index_names_def upt_conv_Cons del: upt_Suc)
qed

lemma get_prop_0_JArr_Cons: "get_prop ''0'' (JArr (x # xs)) = x"
  by (simp add: get_prop_def index_names_Suc del: upt_Suc)




lemma get_prop_spread_Nil:
  assumes "distinct (map fst ps)"
  shows "get_prop k (JObj (spread (JObj ps) [])) = get_prop k (JObj ps)"
  using assms by (simp add: get_prop_JObj map_of_spread map_of_rev_distinct)

text \<open>What the \<open>switch\<close> leaves of the options built before it: every member but
  \<open>plugins\<close>, and for the gauge kinds the \<open>plugins\<close> block.\<close>

lemma special_handling_options:
  assumes "special_handling (JStr t) datasets
             (JObj [(''type'', ty), (''data'', da), (''options'', JObj opts)]) = Inr config"
    and "distinct (map fst opts)" and "k \<noteq> ''plugins''"
  shows "get_prop k (get_prop ''options'' config) = get_prop k (JObj opts)"
proof (cases "t \<in> {''radialGauge'', ''speedometer''}")
  case True
  then have "config =
      JObj (set_prop ''options''
              (JObj (set_prop ''plugins'' datalabels_plugins
                      (spread (get_prop ''options''
                         (JObj [(''type'', ty), (''data'', da), (''options'', JObj opts)])) [])))
              (own_props (JObj [(''type'', ty), (''data'', da), (''options'', JObj opts)])))"
    using assms(1) by (simp add: special_handling_gauge split: if_splits)
  then have "get_prop ''options'' config =
      JObj (set_prop ''plugins'' datalabels_plugins (spread (JObj opts) []))"
    by (simp add: get_prop_set_prop) (simp add: get_prop_JObj)
  then show ?thesis
    using assms(2,3) by (simp add: get_prop_set_prop get_prop_spread_Nil)
next
  case False
  then have "config = JObj [(''type'', ty), (''data'', da), (''options'', JObj opts)]"
    using assms(1) by (auto simp: special_handling_def split: if_splits sum.splits)
  then show ?thesis by (simp add: get_prop_JObj)
qed


section \<open>The serialization round trip\<close>

subsection \<open>Percent-encoding\<close>













subsection \<open>Strings\<close>





subsection \<open>Numbers\<close>














subsection \<open>Objects in enumeration order\<close>











subsection \<open>Parsing what \<open>JSON.stringify\<close> wrote\<close>


















subsection \<open>Normalization keeps values storable\<close>

























text \<open>
  C1. A chart description that is an object, whose type is one of the ten chart kinds and
  whose datasets member is an array of datasets each of which is truthy and has a truthy
  data member (every array is truthy), with a truthy first value of the first dataset for
  the two gauge kinds and an array as the first data element of every dataset for scatter
  and bubble, is normalized successfully, and the type member of the resulting
  configuration is the type of the description.
\<close>

theorem C1_valid_description_normalizes:
  assumes "t \<in> {''bar'', ''line'', ''pie'', ''doughnut'', ''radar'',
                 ''polarArea'', ''scatter'', ''bubble'', ''radialGauge'', ''speedometer''}"
    and "get_prop ''type'' (JObj ps) = JStr t"
    and "get_prop ''datasets'' (JObj ps) = JArr ds"
    and "\<forall>d \<in> set ds. truthy d \<and> truthy (get_prop ''data'' d)"
    and "t \<in> {''radialGauge'', ''speedometer''} \<longrightarrow> truthy (first_value (JArr ds))"
    and "t \<in> {''scatter'', ''bubble''} \<longrightarrow> (\<forall>d \<in> set ds. isArray (first_point d))"
  shows "\<exists>config. generateChartConfig (JObj ps) = Inr config \<and> get_prop ''type'' config = JStr t"
proof -
  have valid: "t \<in> set validTypes" using assms(1) by (simp add: validTypes_def)
  from assms(4) have "\<forall>d \<in> set ds. \<exists>y. map_dataset d = Inr y"
    by (simp add: map_dataset_Inr_iff)
  then obtain cds where cds: "map_throwing map_dataset ds = Inr cds"
    using map_throwing_Inr_iff [of map_dataset ds] by blast
  define cps where "cps =
          [(''type'', JStr t),
           (''data'', JObj [(''labels'', js_or (get_prop ''labels'' (JObj ps)) (JArr [])),
                            (''datasets'', JArr cds)]),
           (''options'',
              JObj (spread (js_and (get_prop ''title'' (JObj ps)) (title_block (get_prop ''title'' (JObj ps))))
                      (spread (default_to (get_prop ''options'' (JObj ps)) (JObj [])) [])))]"
  define config where "config = JObj cps"
  have gen: "generateChartConfig (JObj ps) = special_handling (JStr t) (JArr ds) config"
    using generateChartConfig_past_gates [OF _ assms(2) valid assms(3)] cds
    by (simp add: config_def cps_def)
  have type: "get_prop ''type'' config = JStr t"
    by (simp add: config_def cps_def get_prop_JObj)
  consider (gauge) "t \<in> {''radialGauge'', ''speedometer''}"
    | (points) "t \<in> {''scatter'', ''bubble''}"
    | (other) "t \<notin> {''radialGauge'', ''speedometer'', ''scatter'', ''bubble''}"
    by blast
  then show ?thesis
  proof cases
    case gauge
    with assms(5) have "truthy (first_value (JArr ds))" by blast
    with gauge have "special_handling (JStr t) (JArr ds) config =
        Inr (JObj (set_prop ''options''
                 (JObj (set_prop ''plugins'' datalabels_plugins
                          (spread (get_prop ''options'' config) [])))
                 (own_props config)))"
      by (simp add: special_handling_gauge)
    moreover have "get_prop ''type'' (JObj (set_prop ''options''
                 (JObj (set_prop ''plugins'' datalabels_plugins
                          (spread (get_prop ''options'' config) [])))
                 (own_props config))) = JStr t"
      using type by (simp add: get_prop_set_prop config_def)
    ultimately show ?thesis using gen by simp
  next
    case points
    with assms(6) have "\<forall>d \<in> set ds. isArray (first_point d)" by blast
    then have "forEach_throwing (check_point t) ds = Inr ()"
      by (simp add: forEach_throwing_Inr_iff check_point_Inr_iff)
    with points have "special_handling (JStr t) (JArr ds) config = Inr config"
      by (simp add: special_handling_points)
    with gen type show ?thesis by simp
  next
    case other
    then have "special_handling (JStr t) (JArr ds) config = Inr config"
      by (rule special_handling_other)
    with gen type show ?thesis by simp
  qed
qed

theorem C1_valid_description_witness:
  "\<exists>config. generateChartConfig
      (JObj [(''type'', JStr ''radialGauge''),
             (''datasets'', JArr [JObj [(''data'', JArr [JNum 42])]])]) = Inr config
     \<and> get_prop ''type'' config = JStr ''radialGauge''"
proof -
  have "truthy (first_value (JArr [JObj [(''data'', JArr [JNum 42])]]))"
    by code_simp
  then show ?thesis
    using C1_valid_description_normalizes
      [of "''radialGauge''"
          "[(''type'', JStr ''radialGauge''), (''datasets'', JArr [JObj [(''data'', JArr [JNum 42])]])]"
          "[JObj [(''data'', JArr [JNum 42])]]"]
    by (simp add: get_prop_JObj)
qed

text \<open>
  C2, as the claim states it, fails: the second gate tests the type for truthiness
  (\<open>!args.type\<close>), not for absence. The empty string is a type that is present and is not
  one of the ten chart kinds, and it is rejected there as a missing type, not by the
  validation against the ten kinds.
\<close>

theorem C2_empty_type_counterexample:
  "map_of [(''type'', JStr []), (''datasets'', JArr [])] ''type'' = Some (JStr [])
   \<and> JStr [] \<notin> JStr ` {''bar'', ''line'', ''pie'', ''doughnut'', ''radar'',
          ''polarArea'', ''scatter'', ''bubble'', ''radialGauge'', ''speedometer''}
   \<and> generateChartConfig (JObj [(''type'', JStr []), (''datasets'', JArr [])]) =
       Inl (McpError InvalidParams ''Chart type is required'')
   \<and> generateChartConfig (JObj [(''type'', JStr []), (''datasets'', JArr [])]) \<noteq>
       Inl (McpError InvalidParams
          ''Invalid chart type. Must be one of: bar, line, pie, doughnut, radar, polarArea, scatter, bubble, radialGauge, speedometer'')"
  by (simp add: generateChartConfig_def get_prop_def)

text \<open>
  C2, amended. The rejection gates of the normalizer fire in the order of the source: a
  falsy argument (absent and null included) gives the missing-input failure; otherwise a
  falsy type (an absent one and the empty string included) gives the missing-type
  failure; otherwise a datasets member that is not an array (an absent one included)
  gives the invalid-datasets failure; and only then a truthy type outside the ten chart
  kinds gives the invalid-type failure, whose message lists all ten.
\<close>

theorem C2_rejection_gates_in_order:
  "(\<not> truthy args \<longrightarrow>
      generateChartConfig args =
        Inl (McpError InvalidParams ''No arguments provided to generateChartConfig''))
   \<and> (truthy args \<and> \<not> truthy (get_prop ''type'' args) \<longrightarrow>
      generateChartConfig args = Inl (McpError InvalidParams ''Chart type is required''))
   \<and> (truthy args \<and> truthy (get_prop ''type'' args) \<and> \<not> isArray (get_prop ''datasets'' args) \<longrightarrow>
      generateChartConfig args =
        Inl (McpError InvalidParams ''Datasets must be a non-empty array''))
   \<and> (truthy args \<and> truthy (get_prop ''type'' args) \<and> isArray (get_prop ''datasets'' args) \<and>
      get_prop ''type'' args \<notin> JStr ` {''bar'', ''line'', ''pie'', ''doughnut'', ''radar'',
          ''polarArea'', ''scatter'', ''bubble'', ''radialGauge'', ''speedometer''} \<longrightarrow>
      generateChartConfig args =
        Inl (McpError InvalidParams
          ''Invalid chart type. Must be one of: bar, line, pie, doughnut, radar, polarArea, scatter, bubble, radialGauge, speedometer''))"
proof (intro conjI impI)
  assume "\<not> truthy args"
  then show "generateChartConfig args =
      Inl (McpError InvalidParams ''No arguments provided to generateChartConfig'')"
    by (simp add: generateChartConfig_def)
next
  assume "truthy args \<and> \<not> truthy (get_prop ''type'' args)"
  then show "generateChartConfig args = Inl (McpError InvalidParams ''Chart type is required'')"
    by (simp add: generateChartConfig_def)
next
  assume "truthy args \<and> truthy (get_prop ''type'' args) \<and> \<not> isArray (get_prop ''datasets'' args)"
  then show "generateChartConfig args =
      Inl (McpError InvalidParams ''Datasets must be a non-empty array'')"
    by (simp add: generateChartConfig_def)
next
  assume a: "truthy args \<and> truthy (get_prop ''type'' args) \<and> isArray (get_prop ''datasets'' args) \<and>
      get_prop ''type'' args \<notin> JStr ` {''bar'', ''line'', ''pie'', ''doughnut'', ''radar'',
          ''polarArea'', ''scatter'', ''bubble'', ''radialGauge'', ''speedometer''}"
  then have "\<not> includes_type validTypes (get_prop ''type'' args)"
    unfolding includes_type_validTypes by (auto simp: validTypes_def)
  then have "validateChartType (get_prop ''type'' args) =
      Inl (McpError InvalidParams
          ''Invalid chart type. Must be one of: bar, line, pie, doughnut, radar, polarArea, scatter, bubble, radialGauge, speedometer'')"
    unfolding validateChartType_def join_validTypes by simp
  with a show "generateChartConfig args =
        Inl (McpError InvalidParams
          ''Invalid chart type. Must be one of: bar, line, pie, doughnut, radar, polarArea, scatter, bubble, radialGauge, speedometer'')"
    by (simp add: generateChartConfig_def isArray_truthy)
qed

theorem C2_rejection_gates_witness:
  "generateChartConfig JNull =
      Inl (McpError InvalidParams ''No arguments provided to generateChartConfig'')
   \<and> generateChartConfig (JObj [(''datasets'', JArr [])]) =
      Inl (McpError InvalidParams ''Chart type is required'')
   \<and> generateChartConfig (JObj [(''type'', JStr ''histogram''), (''datasets'', JStr ''none'')]) =
      Inl (McpError InvalidParams ''Datasets must be a non-empty array'')
   \<and> generateChartConfig (JObj [(''type'', JStr ''histogram''), (''datasets'', JArr [])]) =
      Inl (McpError InvalidParams
          ''Invalid chart type. Must be one of: bar, line, pie, doughnut, radar, polarArea, scatter, bubble, radialGauge, speedometer'')"
proof (intro conjI)
  show "generateChartConfig JNull =
      Inl (McpError InvalidParams ''No arguments provided to generateChartConfig'')"
    using C2_rejection_gates_in_order [of JNull] by simp
  show "generateChartConfig (JObj [(''datasets'', JArr [])]) =
      Inl (McpError InvalidParams ''Chart type is required'')"
    using C2_rejection_gates_in_order [of "JObj [(''datasets'', JArr [])]"]
    by (simp add: get_prop_def)
  show "generateChartConfig (JObj [(''type'', JStr ''histogram''), (''datasets'', JStr ''none'')]) =
      Inl (McpError InvalidParams ''Datasets must be a non-empty array'')"
    using C2_rejection_gates_in_order
      [of "JObj [(''type'', JStr ''histogram''), (''datasets'', JStr ''none'')]"]
    by (simp add: get_prop_def)
  show "generateChartConfig (JObj [(''type'', JStr ''histogram''), (''datasets'', JArr [])]) =
      Inl (McpError InvalidParams
          ''Invalid chart type. Must be one of: bar, line, pie, doughnut, radar, polarArea, scatter, bubble, radialGauge, speedometer'')"
    using C2_rejection_gates_in_order
      [of "JObj [(''type'', JStr ''histogram''), (''datasets'', JArr [])]"]
    by (simp add: get_prop_def)
qed





text \<open>
  C4, as the claim states it, fails: the title block is written under the guard
  \<open>title && {...}\<close>, so the empty string, which is a title string that was supplied, writes
  nothing, and a title member of the caller's options stays in the configuration.
\<close>

theorem C4_empty_title_counterexample:
  "generateChartConfig
     (JObj [(''type'', JStr ''bar''), (''datasets'', JArr []), (''title'', JStr ''''),
            (''options'', JObj [(''title'', JStr ''kept'')])]) =
   Inr (JObj [(''type'', JStr ''bar''),
              (''data'', JObj [(''labels'', JArr []), (''datasets'', JArr [])]),
              (''options'', JObj [(''title'', JStr ''kept'')])])
   \<and> get_prop ''title''
        (JObj [(''type'', JStr ''bar''), (''datasets'', JArr []), (''title'', JStr ''''),
               (''options'', JObj [(''title'', JStr ''kept'')])]) = JStr ''''
   \<and> get_prop ''title'' (get_prop ''options''
        (JObj [(''type'', JStr ''bar''),
               (''data'', JObj [(''labels'', JArr []), (''datasets'', JArr [])]),
               (''options'', JObj [(''title'', JStr ''kept'')])])) \<noteq>
       JObj [(''display'', JBool True), (''text'', JStr '''')]"
  by code_simp

text \<open>
  C4, amended. For every input on which normalization succeeds and whose title is a
  string: when the string is not empty, the options of the configuration hold
  \<open>title = {display: true, text: title}\<close>, whatever title member the caller's options
  have; when it is empty, no title block is written, and the title member of the
  options is the one of the shallow copy \<open>{...options}\<close> of the caller's options: the
  caller's own title member when the options are a mapping, and none when the caller
  gave no options.
\<close>

theorem C4_title_wins_unless_empty:
  assumes "generateChartConfig args = Inr config"
    and "get_prop ''title'' args = JStr s"
  shows "(s \<noteq> [] \<longrightarrow>
            get_prop ''title'' (get_prop ''options'' config) =
              JObj [(''display'', JBool True), (''text'', JStr s)])
       \<and> (s = [] \<longrightarrow>
            get_prop ''title'' (get_prop ''options'' config) =
              get_prop ''title''
                (JObj (spread (default_to (get_prop ''options'' args) (JObj [])) [])))
       \<and> (s = [] \<longrightarrow>
            (\<forall>opts. get_prop ''options'' args = JObj opts \<and> distinct (map fst opts) \<longrightarrow>
               get_prop ''title'' (get_prop ''options'' config) = get_prop ''title'' (JObj opts)))
       \<and> (s = [] \<and> get_prop ''options'' args = JUndefined \<longrightarrow>
            get_prop ''title'' (get_prop ''options'' config) = JUndefined)"
proof -
  define copy where "copy = spread (default_to (get_prop ''options'' args) (JObj [])) []"
  define opts where "opts =
     spread (js_and (get_prop ''title'' args) (title_block (get_prop ''title'' args))) copy"
  from assms(1) obtain t ds cds where
    sh: "special_handling (JStr t) (JArr ds)
            (JObj [(''type'', JStr t),
                   (''data'', JObj [(''labels'', js_or (get_prop ''labels'' args) (JArr [])),
                                    (''datasets'', JArr cds)]),
                   (''options'', JObj opts)])
          = Inr config"
    unfolding opts_def copy_def by (rule generateChartConfig_Inr_cases)
  have "distinct (map fst opts)"
    unfolding opts_def copy_def by (intro distinct_spread) simp
  then have kept: "get_prop ''title'' (get_prop ''options'' config) = get_prop ''title'' (JObj opts)"
    by (intro special_handling_options [OF sh]) simp_all
  have filled: "get_prop ''title'' (JObj opts) = JObj [(''display'', JBool True), (''text'', JStr s)]"
    if "s \<noteq> []"
    using assms(2) that
    by (simp add: opts_def js_and_def title_block_def get_prop_JObj map_of_spread)
  have "opts = copy" if "s = []"
    using assms(2) that by (simp add: opts_def js_and_def spread_def index_names_def)
  then have empty: "get_prop ''title'' (get_prop ''options'' config) = get_prop ''title'' (JObj copy)"
    if "s = []"
    using kept that by simp
  have mapping: "get_prop ''title'' (JObj copy) = get_prop ''title'' (JObj ps)"
    if "get_prop ''options'' args = JObj ps" and "distinct (map fst ps)" for ps
    using that by (simp add: copy_def get_prop_spread_Nil)
  have absent: "get_prop ''title'' (JObj copy) = JUndefined"
    if "get_prop ''options'' args = JUndefined"
    using that by (simp add: copy_def get_prop_JObj spread_def)
  from kept filled empty mapping absent show ?thesis
    unfolding copy_def by simp
qed

theorem C4_title_wins_unless_empty_witness:
  "generateChartConfig
     (JObj [(''type'', JStr ''bar''), (''datasets'', JArr []), (''title'', JStr ''Sales''),
            (''options'', JObj [(''title'', JStr ''kept'')])]) =
   Inr (JObj [(''type'', JStr ''bar''),
              (''data'', JObj [(''labels'', JArr []), (''datasets'', JArr [])]),
              (''options'', JObj [(''title'', JObj [(''display'', JBool True), (''text'', JStr ''Sales'')])])])
   \<and> get_prop ''title'' (get_prop ''options''
      (JObj [(''type'', JStr ''bar''),
             (''data'', JObj [(''labels'', JArr []), (''datasets'', JArr [])]),
             (''options'', JObj [(''title'', JObj [(''display'', JBool True), (''text'', JStr ''Sales'')])])])) =
   JObj [(''display'', JBool True), (''text'', JStr ''Sales'')]
   \<and> generateChartConfig
     (JObj [(''type'', JStr ''line''), (''datasets'', JArr []), (''title'', JStr []),
            (''options'', JObj [(''legend'', JBool False), (''title'', JStr ''kept'')])]) =
   Inr (JObj [(''type'', JStr ''line''),
              (''data'', JObj [(''labels'', JArr []), (''datasets'', JArr [])]),
              (''options'', JObj [(''legend'', JBool False), (''title'', JStr ''kept'')])])
   \<and> get_prop ''title'' (get_prop ''options''
      (JObj [(''type'', JStr ''line''),
             (''data'', JObj [(''labels'', JArr []), (''datasets'', JArr [])]),
             (''options'', JObj [(''legend'', JBool False), (''title'', JStr ''kept'')])])) =
   JStr ''kept''"
proof -
  have filled: "generateChartConfig
     (JObj [(''type'', JStr ''bar''), (''datasets'', JArr []), (''title'', JStr ''Sales''),
            (''options'', JObj [(''title'', JStr ''kept'')])]) =
   Inr (JObj [(''type'', JStr ''bar''),
              (''data'', JObj [(''labels'', JArr []), (''datasets'', JArr [])]),
              (''options'', JObj [(''title'', JObj [(''display'', JBool True), (''text'', JStr ''Sales'')])])])"
    by code_simp
  have empty: "generateChartConfig
     (JObj [(''type'', JStr ''line''), (''datasets'', JArr []), (''title'', JStr []),
            (''options'', JObj [(''legend'', JBool False), (''title'', JStr ''kept'')])]) =
   Inr (JObj [(''type'', JStr ''line''),
              (''data'', JObj [(''labels'', JArr []), (''datasets'', JArr [])]),
              (''options'', JObj [(''legend'', JBool False), (''title'', JStr ''kept'')])])"
    by code_simp
  from C4_title_wins_unless_empty [OF filled, of "''Sales''"]
       C4_title_wins_unless_empty [OF empty, of "[]"] filled empty
  show ?thesis
    by (simp add: get_prop_JObj)
qed



text \<open>
  C6. For the scatter and bubble kinds, normalization of a description whose datasets are
  an array fails with an invalid-parameters error when the first data element of some
  dataset is not an array, and succeeds when the first data element of every dataset is
  an array. Only that first element is looked at: datasets whose data start with an
  array are accepted whatever follows it.
\<close>

theorem C6_points_first_element_only:
  assumes "t \<in> {''scatter'', ''bubble''}"
    and "get_prop ''type'' (JObj ps) = JStr t"
    and "get_prop ''datasets'' (JObj ps) = JArr ds"
  shows "((\<exists>d \<in> set ds. \<not> isArray (first_point d)) \<longrightarrow>
            (\<exists>m. generateChartConfig (JObj ps) = Inl (McpError InvalidParams m)))
       \<and> ((\<forall>d \<in> set ds. isArray (first_point d)) \<longrightarrow>
            (\<exists>config. generateChartConfig (JObj ps) = Inr config))
       \<and> ((\<forall>d \<in> set ds. \<exists>point rest. get_prop ''data'' d = JArr (JArr point # rest)) \<longrightarrow>
            (\<exists>config. generateChartConfig (JObj ps) = Inr config))"
proof -
  have valid: "t \<in> set validTypes" using assms(1) by (auto simp: validTypes_def)
  note gen = generateChartConfig_past_gates [OF _ assms(2) valid assms(3)]
  have ok: "\<exists>config. generateChartConfig (JObj ps) = Inr config"
    if all: "\<forall>d \<in> set ds. isArray (first_point d)"
  proof -
    from all have "\<forall>d \<in> set ds. \<exists>y. map_dataset d = Inr y"
      using first_point_truthy by (simp add: map_dataset_Inr_iff)
    then obtain cds where cds: "map_throwing map_dataset ds = Inr cds"
      using map_throwing_Inr_iff [of map_dataset ds] by blast
    from all have "forEach_throwing (check_point t) ds = Inr ()"
      by (simp add: forEach_throwing_Inr_iff check_point_Inr_iff)
    with assms(1) cds show ?thesis
      by (simp add: gen special_handling_points)
  qed
  have bad: "\<exists>m. generateChartConfig (JObj ps) = Inl (McpError InvalidParams m)"
    if some: "\<exists>d \<in> set ds. \<not> isArray (first_point d)"
  proof (cases "map_throwing map_dataset ds")
    case (Inl e)
    then have "generateChartConfig (JObj ps) = Inl e" by (simp add: gen)
    then show ?thesis using generateChartConfig_error_code by blast
  next
    case (Inr cds)
    from some have "forEach_throwing (check_point t) ds \<noteq> Inr ()"
      by (simp add: forEach_throwing_Inr_iff check_point_Inr_iff)
    then obtain e where "forEach_throwing (check_point t) ds = Inl e"
      by (cases "forEach_throwing (check_point t) ds") auto
    with assms(1) Inr have "generateChartConfig (JObj ps) = Inl e"
      by (simp add: gen special_handling_points)
    then show ?thesis using generateChartConfig_error_code by blast
  qed
  have rest: "\<exists>config. generateChartConfig (JObj ps) = Inr config"
    if shape: "\<forall>d \<in> set ds. \<exists>point rest. get_prop ''data'' d = JArr (JArr point # rest)"
  proof (rule ok, rule ballI)
    fix d assume "d \<in> set ds"
    with shape obtain point rest where "get_prop ''data'' d = JArr (JArr point # rest)"
      by blast
    then show "isArray (first_point d)"
      by (simp add: first_point_def get_prop_0_JArr_Cons)
  qed
  from ok bad rest show ?thesis by blast
qed

theorem C6_points_witness:
  "(\<exists>m. generateChartConfig
          (JObj [(''type'', JStr ''scatter''),
                 (''datasets'', JArr [JObj [(''data'', JArr [JNum 1, JNum 2, JNum 3])]])]) =
        Inl (McpError InvalidParams m))
   \<and> (\<exists>config. generateChartConfig
          (JObj [(''type'', JStr ''scatter''),
                 (''datasets'', JArr [JObj [(''data'', JArr [JArr [JNum 1, JNum 2], JNum 3])]])]) =
        Inr config)"
proof
  have "\<not> isArray (first_point (JObj [(''data'', JArr [JNum 1, JNum 2, JNum 3])]))"
    by (simp add: first_point_def get_prop_JObj get_prop_0_JArr_Cons)
  then show "\<exists>m. generateChartConfig
          (JObj [(''type'', JStr ''scatter''),
                 (''datasets'', JArr [JObj [(''data'', JArr [JNum 1, JNum 2, JNum 3])]])]) =
        Inl (McpError InvalidParams m)"
    using C6_points_first_element_only
      [of "''scatter''"
          "[(''type'', JStr ''scatter''),
            (''datasets'', JArr [JObj [(''data'', JArr [JNum 1, JNum 2, JNum 3])]])]"
          "[JObj [(''data'', JArr [JNum 1, JNum 2, JNum 3])]]"]
    by (simp add: get_prop_JObj)
  have "isArray (first_point (JObj [(''data'', JArr [JArr [JNum 1, JNum 2], JNum 3])]))"
    by (simp add: first_point_def get_prop_JObj get_prop_0_JArr_Cons)
  then show "\<exists>config. generateChartConfig
          (JObj [(''type'', JStr ''scatter''),
                 (''datasets'', JArr [JObj [(''data'', JArr [JArr [JNum 1, JNum 2], JNum 3])]])]) =
        Inr config"
    using C6_points_first_element_only
      [of "''scatter''"
          "[(''type'', JStr ''scatter''),
            (''datasets'', JArr [JObj [(''data'', JArr [JArr [JNum 1, JNum 2], JNum 3])]])]"
          "[JObj [(''data'', JArr [JArr [JNum 1, JNum 2], JNum 3])]]"]
    by (simp add: get_prop_JObj)
qed

lemma get_prop_lift_member:
  "get_prop k (JObj (lift_member name config n)) =
     (if k = name \<and> truthy (get_prop ''data'' config) \<and> typeof_object (get_prop ''data'' config) \<and>
         truthy (get_prop name (get_prop ''data'' config)) \<and> \<not> truthy (get_prop name (JObj n))
      then get_prop name (get_prop ''data'' config)
      else get_prop k (JObj n))"
  by (simp add: lift_member_def get_prop_set_prop)

lemma get_prop_lift_nested:
  assumes "distinct (map fst ps)"
  shows "get_prop k (JObj (lift_nested (JObj ps))) =
     (if k \<in> {''datasets'', ''labels'', ''type''} \<and>
         truthy (get_prop ''data'' (JObj ps)) \<and> typeof_object (get_prop ''data'' (JObj ps)) \<and>
         truthy (get_prop k (get_prop ''data'' (JObj ps))) \<and> \<not> truthy (get_prop k (JObj ps))
      then get_prop k (get_prop ''data'' (JObj ps))
      else get_prop k (JObj ps))"
  unfolding lift_nested_def get_prop_lift_member get_prop_spread_Nil [OF assms]
  by auto

lemma generateChartConfig_members:
  assumes "truthy a" and "truthy b"
    and "\<forall>k \<in> {''type'', ''labels'', ''datasets'', ''title'', ''options''}. get_prop k a = get_prop k b"
  shows "generateChartConfig a = generateChartConfig b"
  using assms by (simp add: generateChartConfig_def)

text \<open>
  C7, as the claim states it, fails: the adapter tests the top-level member for
  truthiness (\<open>!normalizedConfig.type\<close>), not for absence, so a top-level member that is
  present with a falsy value, such as \<open>type: ""\<close>, is overwritten by the nested one. The
  input below has the top-level type \<open>""\<close>; the adapter replaces it by the nested
  \<open>"pie"\<close>, and the result is normalized as a pie chart, where the same top-level members
  alone are rejected for their missing type.
\<close>

theorem C7_present_member_overwritten_counterexample:
  "map_of [(''type'', JStr []),
           (''datasets'', JArr [JObj [(''data'', JArr [JNum 1])]]),
           (''data'', JObj [(''type'', JStr ''pie'')])] ''type'' = Some (JStr [])
   \<and> adapt_config
        (JObj [(''type'', JStr []),
               (''datasets'', JArr [JObj [(''data'', JArr [JNum 1])]]),
               (''data'', JObj [(''type'', JStr ''pie'')])]) =
       Inr (JObj [(''type'', JStr ''pie''),
                  (''datasets'', JArr [JObj [(''data'', JArr [JNum 1])]]),
                  (''data'', JObj [(''type'', JStr ''pie'')])])
   \<and> generateChartConfig
        (JObj [(''type'', JStr ''pie''),
               (''datasets'', JArr [JObj [(''data'', JArr [JNum 1])]]),
               (''data'', JObj [(''type'', JStr ''pie'')])]) =
       Inr (JObj [(''type'', JStr ''pie''),
                  (''data'', JObj [(''labels'', JArr []),
                                   (''datasets'', JArr [JObj [(''label'', JStr []),
                                                              (''data'', JArr [JNum 1]),
                                                              (''backgroundColor'', JUndefined),
                                                              (''borderColor'', JUndefined)]])]),
                  (''options'', JObj [])])
   \<and> generateChartConfig
        (JObj [(''type'', JStr []),
               (''datasets'', JArr [JObj [(''data'', JArr [JNum 1])]])]) =
       Inl (McpError InvalidParams ''Chart type is required'')"
  by code_simp

text \<open>
  C7, amended. On a configuration object, the adapter copies each of \<open>datasets\<close>,
  \<open>labels\<close> and \<open>type\<close> from the nested \<open>data\<close> member to the top level exactly when
  \<open>data\<close> is an object or an array, the nested value is truthy and the top-level value is
  absent or falsy; it never overwrites a truthy top-level member and changes no other
  member. Consequently a nested-shape input \<open>{type, data: {datasets, labels}}\<close> with
  truthy members passes the adapter and normalizes to the same result as the flat input
  \<open>{type, datasets, labels}\<close>.
\<close>

theorem C7_adapter_lifts_when_falsy:
  assumes "distinct (map fst ps)"
  shows "(\<forall>name \<in> {''datasets'', ''labels'', ''type''}.
            get_prop name (JObj (lift_nested (JObj ps))) =
              (if truthy (get_prop ''data'' (JObj ps)) \<and> typeof_object (get_prop ''data'' (JObj ps)) \<and>
                  truthy (get_prop name (get_prop ''data'' (JObj ps))) \<and>
                  \<not> truthy (get_prop name (JObj ps))
               then get_prop name (get_prop ''data'' (JObj ps))
               else get_prop name (JObj ps)))
       \<and> (\<forall>name. truthy (get_prop name (JObj ps)) \<longrightarrow>
            get_prop name (JObj (lift_nested (JObj ps))) = get_prop name (JObj ps))
       \<and> (\<forall>name. name \<notin> {''datasets'', ''labels'', ''type''} \<longrightarrow>
            get_prop name (JObj (lift_nested (JObj ps))) = get_prop name (JObj ps))
       \<and> (\<forall>ty ds ls. truthy ty \<and> truthy ds \<and> truthy ls \<longrightarrow>
            (\<exists>normalizedConfig.
               adapt_config (JObj [(''type'', ty), (''data'', JObj [(''datasets'', ds), (''labels'', ls)])]) =
                 Inr normalizedConfig \<and>
               generateChartConfig normalizedConfig =
                 generateChartConfig (JObj [(''type'', ty), (''datasets'', ds), (''labels'', ls)])))"
proof (intro conjI ballI allI impI)
  fix name assume "name \<in> {''datasets'', ''labels'', ''type''}"
  then show "get_prop name (JObj (lift_nested (JObj ps))) =
              (if truthy (get_prop ''data'' (JObj ps)) \<and> typeof_object (get_prop ''data'' (JObj ps)) \<and>
                  truthy (get_prop name (get_prop ''data'' (JObj ps))) \<and>
                  \<not> truthy (get_prop name (JObj ps))
               then get_prop name (get_prop ''data'' (JObj ps))
               else get_prop name (JObj ps))"
    by (simp only: get_prop_lift_nested [OF assms]) simp
next
  fix name assume "truthy (get_prop name (JObj ps))"
  then show "get_prop name (JObj (lift_nested (JObj ps))) = get_prop name (JObj ps)"
    by (simp only: get_prop_lift_nested [OF assms]) simp
next
  fix name :: string assume "name \<notin> {''datasets'', ''labels'', ''type''}"
  then show "get_prop name (JObj (lift_nested (JObj ps))) = get_prop name (JObj ps)"
    by (simp only: get_prop_lift_nested [OF assms]) simp
next
  fix ty ds ls assume truthy: "truthy ty \<and> truthy ds \<and> truthy ls"
  let ?nested = "JObj [(''type'', ty), (''data'', JObj [(''datasets'', ds), (''labels'', ls)])]"
  let ?flat = "JObj [(''type'', ty), (''datasets'', ds), (''labels'', ls)]"
  have d: "distinct (map fst [(''type'', ty), (''data'', JObj [(''datasets'', ds), (''labels'', ls)])])"
    by simp
  have members: "get_prop k (JObj (lift_nested ?nested)) = get_prop k ?flat"
    if "k \<in> {''type'', ''labels'', ''datasets'', ''title'', ''options''}" for k
    using that truthy unfolding get_prop_lift_nested [OF d]
    by (auto simp: get_prop_JObj)
  have "adapt_config ?nested = Inr (JObj (lift_nested ?nested))"
    using truthy members [of "''type''"] members [of "''datasets''"]
    by (simp add: adapt_config_def get_prop_JObj)
  moreover have "generateChartConfig (JObj (lift_nested ?nested)) = generateChartConfig ?flat"
    by (rule generateChartConfig_members) (use members in auto)
  ultimately show "\<exists>normalizedConfig. adapt_config ?nested = Inr normalizedConfig \<and>
               generateChartConfig normalizedConfig = generateChartConfig ?flat"
    by blast
qed

theorem C7_adapter_witness:
  "(\<exists>normalizedConfig.
      adapt_config (JObj [(''type'', JStr ''pie''),
                          (''data'', JObj [(''datasets'', JArr [JObj [(''data'', JArr [JNum 1])]]),
                                           (''labels'', JArr [JStr ''a''])])]) =
        Inr normalizedConfig \<and>
      generateChartConfig normalizedConfig =
        generateChartConfig (JObj [(''type'', JStr ''pie''),
                                   (''datasets'', JArr [JObj [(''data'', JArr [JNum 1])]]),
                                   (''labels'', JArr [JStr ''a''])]))
   \<and> generateChartConfig (JObj [(''type'', JStr ''pie''),
                                   (''datasets'', JArr [JObj [(''data'', JArr [JNum 1])]]),
                                   (''labels'', JArr [JStr ''a''])]) =
       Inr (JObj [(''type'', JStr ''pie''),
                  (''data'', JObj [(''labels'', JArr [JStr ''a'']),
                                   (''datasets'', JArr [JObj [(''label'', JStr ''''),
                                                              (''data'', JArr [JNum 1]),
                                                              (''backgroundColor'', JUndefined),
                                                              (''borderColor'', JUndefined)]])]),
                  (''options'', JObj [])])
   \<and> get_prop ''labels''
        (JObj (lift_nested (JObj [(''labels'', JArr []), (''data'', JObj [(''labels'', JArr [JStr ''a''])])]))) =
       JArr []"
proof (intro conjI)
  show "\<exists>normalizedConfig.
      adapt_config (JObj [(''type'', JStr ''pie''),
                          (''data'', JObj [(''datasets'', JArr [JObj [(''data'', JArr [JNum 1])]]),
                                           (''labels'', JArr [JStr ''a''])])]) =
        Inr normalizedConfig \<and>
      generateChartConfig normalizedConfig =
        generateChartConfig (JObj [(''type'', JStr ''pie''),
                                   (''datasets'', JArr [JObj [(''data'', JArr [JNum 1])]]),
                                   (''labels'', JArr [JStr ''a''])])"
    using C7_adapter_lifts_when_falsy [of "[]"] by simp
  show "generateChartConfig (JObj [(''type'', JStr ''pie''),
                                   (''datasets'', JArr [JObj [(''data'', JArr [JNum 1])]]),
                                   (''labels'', JArr [JStr ''a''])]) =
       Inr (JObj [(''type'', JStr ''pie''),
                  (''data'', JObj [(''labels'', JArr [JStr ''a'']),
                                   (''datasets'', JArr [JObj [(''label'', JStr ''''),
                                                              (''data'', JArr [JNum 1]),
                                                              (''backgroundColor'', JUndefined),
                                                              (''borderColor'', JUndefined)]])]),
                  (''options'', JObj [])])"
    by code_simp
  show "get_prop ''labels''
        (JObj (lift_nested (JObj [(''labels'', JArr []), (''data'', JObj [(''labels'', JArr [JStr ''a''])])]))) =
       JArr []"
    using C7_adapter_lifts_when_falsy
      [of "[(''labels'', JArr []), (''data'', JObj [(''labels'', JArr [JStr ''a''])])]"]
    by (simp add: get_prop_JObj)
qed

lemma bind_io_Inl: "m = (events, Inl e) \<Longrightarrow> bind_io m f = (events, Inl e)"
  by (simp add: bind_io_def)

lemma bind_io_Inr: "m = (events, Inr x) \<Longrightarrow> bind_io m f = (events @ fst (f x), snd (f x))"
  by (simp add: bind_io_def split: prod.splits)

lemma bind_io_return: "bind_io (return_io x) f = f x"
  by (simp add: bind_io_def return_io_def split: prod.splits)

lemma bind_io_throw: "bind_io (throw_io e) f = throw_io e"
  by (simp add: bind_io_def throw_io_def)

lemma resolve_output_path_quiet:
  "\<forall>e \<in> set (fst (resolve_output_path h n u)). \<not> is_fetch_or_write e"
  by (auto simp: resolve_output_path_def default_output_path_def Let_def return_io_def throw_io_def
           split: jsval.splits)

text \<open>The result of the stages before the fetch, stage by stage.\<close>

lemma prepare_download_cases:
  obtains
    (no_arguments) "arguments = JUndefined \<or> arguments = JNull"
      "prepare_download h arguments = ([], Inl (Other [] (fault_message h DestructureUndefined)))"
  | (bad_shape) e where "arguments \<noteq> JUndefined" "arguments \<noteq> JNull"
      "adapt_config (get_prop ''config'' arguments) = Inl e"
      "prepare_download h arguments = ([], Inl (Mcp e))"
  | (no_path) n ev e where "arguments \<noteq> JUndefined" "arguments \<noteq> JNull"
      "adapt_config (get_prop ''config'' arguments) = Inr n"
      "resolve_output_path h n (get_prop ''outputPath'' arguments) = (ev, Inl e)"
      "prepare_download h arguments = (ev, Inl e)"
  | (unwritable) n ev p where "arguments \<noteq> JUndefined" "arguments \<noteq> JNull"
      "adapt_config (get_prop ''config'' arguments) = Inr n"
      "resolve_output_path h n (get_prop ''outputPath'' arguments) = (ev, Inr p)"
      "\<not> writable h (path_dirname h p)"
      "prepare_download h arguments =
         (ev @ [Access (path_dirname h p)],
          Inl (Mcp (McpError InvalidParams
                 (''Output directory does not exist or is not writable: '' @ path_dirname h p))))"
  | (not_normalized) n ev p e where "arguments \<noteq> JUndefined" "arguments \<noteq> JNull"
      "adapt_config (get_prop ''config'' arguments) = Inr n"
      "resolve_output_path h n (get_prop ''outputPath'' arguments) = (ev, Inr p)"
      "writable h (path_dirname h p)"
      "generateChartConfig n = Inl e"
      "prepare_download h arguments = (ev @ [Access (path_dirname h p)], Inl (Mcp e))"
  | (ready) n ev p c where "arguments \<noteq> JUndefined" "arguments \<noteq> JNull"
      "adapt_config (get_prop ''config'' arguments) = Inr n"
      "resolve_output_path h n (get_prop ''outputPath'' arguments) = (ev, Inr p)"
      "writable h (path_dirname h p)"
      "generateChartConfig n = Inr c"
      "prepare_download h arguments = (ev @ [Access (path_dirname h p)], Inr (generateChartUrl c, p))"
proof (cases "arguments = JUndefined \<or> arguments = JNull")
  case True
  then show ?thesis
    by (intro no_arguments)
       (auto simp: prepare_download_def read_arguments_def throw_io_def bind_io_def)
next
  case False
  then have args: "arguments \<noteq> JUndefined" "arguments \<noteq> JNull" by auto
  have start: "prepare_download h arguments =
     bind_io (lift_result (adapt_config (get_prop ''config'' arguments))) (\<lambda>normalizedConfig.
     bind_io (resolve_output_path h normalizedConfig (get_prop ''outputPath'' arguments)) (\<lambda>outputPath.
     bind_io (check_output_dir h outputPath) (\<lambda>u.
     bind_io (lift_result (generateChartConfig normalizedConfig)) (\<lambda>chartConfig.
     return_io (generateChartUrl chartConfig, outputPath)))))"
    using args by (simp add: prepare_download_def read_arguments_def bind_io_return)
  show ?thesis
  proof (cases "adapt_config (get_prop ''config'' arguments)")
    case (Inl e)
    then show ?thesis
      by (intro bad_shape [OF args]) (simp_all add: start lift_result_def bind_io_throw, simp add: throw_io_def)
  next
    case (Inr n)
    then have adapted: "prepare_download h arguments =
       bind_io (resolve_output_path h n (get_prop ''outputPath'' arguments)) (\<lambda>outputPath.
       bind_io (check_output_dir h outputPath) (\<lambda>u.
       bind_io (lift_result (generateChartConfig n)) (\<lambda>chartConfig.
       return_io (generateChartUrl chartConfig, outputPath))))"
      by (simp add: start lift_result_def bind_io_return)
    obtain ev r where res: "resolve_output_path h n (get_prop ''outputPath'' arguments) = (ev, r)"
      by (cases "resolve_output_path h n (get_prop ''outputPath'' arguments)")
    show ?thesis
    proof (cases r)
      case (Inl e)
      with res show ?thesis
        by (intro no_path [OF args Inr]) (simp_all add: adapted bind_io_def)
    next
      case r: (Inr p)
      show ?thesis
      proof (cases "writable h (path_dirname h p)")
        case False
        with res r show ?thesis
          by (intro unwritable [OF args Inr])
             (simp_all add: adapted bind_io_def check_output_dir_def Let_def)
      next
        case True
        show ?thesis
        proof (cases "generateChartConfig n")
          case (Inl e)
          with res r True show ?thesis
            by (intro not_normalized [OF args Inr])
               (simp_all add: adapted bind_io_def check_output_dir_def Let_def lift_result_def
                              throw_io_def)
        next
          case c: (Inr c)
          with res r True show ?thesis
            by (intro ready [OF args Inr])
               (simp_all add: adapted bind_io_def check_output_dir_def Let_def lift_result_def
                              return_io_def)
        qed
      qed
    qed
  qed
qed

lemma download_chart_failed:
  assumes "prepare_download h arguments = (ev, Inl e)"
  shows "download_chart h arguments = (ev, rethrow ''Failed to download chart: '' (Inl e))"
  using assms by (simp add: download_chart_def bind_io_def)

text \<open>
  C8. In the download operation every validation precedes the fetch. If the trace of a
  run has a fetch or a file write, then the arguments were there, the shape adapter
  accepted the configuration, an output path was resolved, its directory was
  write-accessible and normalization succeeded; so a failure of any of these leaves no
  fetch and no write in the trace. In particular, when the directory of the resolved
  output path is not write-accessible, the operation fails with the invalid-parameters
  error that names that directory, and the trace has neither a fetch nor a write.
\<close>

theorem C8_validation_precedes_fetch:
  "((\<exists>e \<in> set (fst (download_chart h arguments)). is_fetch_or_write e) \<longrightarrow>
      (\<exists>n p c. arguments \<noteq> JUndefined \<and> arguments \<noteq> JNull \<and>
         adapt_config (get_prop ''config'' arguments) = Inr n \<and>
         snd (resolve_output_path h n (get_prop ''outputPath'' arguments)) = Inr p \<and>
         writable h (path_dirname h p) \<and>
         generateChartConfig n = Inr c))
   \<and> (\<forall>n p. arguments \<noteq> JUndefined \<and> arguments \<noteq> JNull \<and>
         adapt_config (get_prop ''config'' arguments) = Inr n \<and>
         snd (resolve_output_path h n (get_prop ''outputPath'' arguments)) = Inr p \<and>
         \<not> writable h (path_dirname h p) \<longrightarrow>
         snd (download_chart h arguments) =
           Inl (McpError InvalidParams
                 (''Output directory does not exist or is not writable: '' @ path_dirname h p)) \<and>
         (\<forall>e \<in> set (fst (download_chart h arguments)). \<not> is_fetch_or_write e))"
  using prepare_download_cases [where h = h and arguments = arguments]
proof cases
  case no_arguments
  then show ?thesis by (auto simp: download_chart_failed)
next
  case (bad_shape e)
  then show ?thesis by (auto simp: download_chart_failed)
next
  case (no_path n ev e)
  with resolve_output_path_quiet [of h n "get_prop ''outputPath'' arguments"]
  show ?thesis by (auto simp: download_chart_failed)
next
  case (unwritable n ev p)
  with resolve_output_path_quiet [of h n "get_prop ''outputPath'' arguments"]
  show ?thesis by (auto simp: download_chart_failed rethrow_def)
next
  case (not_normalized n ev p e)
  with resolve_output_path_quiet [of h n "get_prop ''outputPath'' arguments"]
  show ?thesis by (auto simp: download_chart_failed)
next
  case (ready n ev p c)
  then show ?thesis by auto
qed

theorem C8_validation_precedes_fetch_witness:
  "download_chart
     \<lparr> homedir = ''/home/user'', writable = (\<lambda>dir. dir = ''/home/user''),
       now_iso = ''2024-05-06T07:08:09.123Z'',
       http_get = (\<lambda>url. Inr ''image''), write_file = (\<lambda>path body. None),
       path_join = (\<lambda>a b. a @ ''/'' @ b),
       path_dirname = (\<lambda>path. rev (tl (dropWhile (\<lambda>c. c \<noteq> CHR ''/'') (rev path)))),
       to_string = (\<lambda>v. case v of JStr s \<Rightarrow> s | _ \<Rightarrow> ''[object Object]''),
       fault_message = (\<lambda>f. ''TypeError'') \<rparr>
     (JObj [(''config'', JObj [(''type'', JStr ''pie''),
                               (''datasets'', JArr [JObj [(''data'', JArr [JNum 1])]])]),
            (''outputPath'', JStr ''/nowhere/chart.png'')]) =
   ([Access ''/nowhere''],
    Inl (McpError InvalidParams ''Output directory does not exist or is not writable: /nowhere''))
   \<and> fst (download_chart
     \<lparr> homedir = ''/home/user'', writable = (\<lambda>dir. dir = ''/home/user''),
       now_iso = ''2024-05-06T07:08:09.123Z'',
       http_get = (\<lambda>url. Inr ''image''), write_file = (\<lambda>path body. None),
       path_join = (\<lambda>a b. a @ ''/'' @ b),
       path_dirname = (\<lambda>path. rev (tl (dropWhile (\<lambda>c. c \<noteq> CHR ''/'') (rev path)))),
       to_string = (\<lambda>v. case v of JStr s \<Rightarrow> s | _ \<Rightarrow> ''[object Object]''),
       fault_message = (\<lambda>f. ''TypeError'') \<rparr>
     (JObj [(''config'', JObj [(''type'', JStr ''pie''),
                               (''datasets'', JArr [JObj [(''data'', JArr [JNum 1])]])]),
            (''outputPath'', JStr ''/home/user/chart.png'')])) =
     [Access ''/home/user'',
      Fetch (generateChartUrl
        (JObj [(''type'', JStr ''pie''),
               (''data'', JObj [(''labels'', JArr []),
                                (''datasets'', JArr [JObj [(''label'', JStr ''''),
                                                           (''data'', JArr [JNum 1]),
                                                           (''backgroundColor'', JUndefined),
                                                           (''borderColor'', JUndefined)]])]),
               (''options'', JObj [])])),
      WriteFile ''/home/user/chart.png'' ''image'']
   \<and> (\<exists>chartConfig.
         generateChartConfig (JObj [(''type'', JStr ''pie''),
                                    (''datasets'', JArr [JObj [(''data'', JArr [JNum 1])]])]) =
           Inr chartConfig)"
proof -
  let ?h = "\<lparr> homedir = ''/home/user'', writable = (\<lambda>dir. dir = ''/home/user''),
       now_iso = ''2024-05-06T07:08:09.123Z'',
       http_get = (\<lambda>url. Inr ''image''), write_file = (\<lambda>path body. None),
       path_join = (\<lambda>a b. a @ ''/'' @ b),
       path_dirname = (\<lambda>path. rev (tl (dropWhile (\<lambda>c. c \<noteq> CHR ''/'') (rev path)))),
       to_string = (\<lambda>v. case v of JStr s \<Rightarrow> s | _ \<Rightarrow> ''[object Object]''),
       fault_message = (\<lambda>f. ''TypeError'') \<rparr>"
  let ?config = "JObj [(''type'', JStr ''pie''),
                       (''datasets'', JArr [JObj [(''data'', JArr [JNum 1])]])]"
  let ?bad = "JObj [(''config'', ?config), (''outputPath'', JStr ''/nowhere/chart.png'')]"
  let ?good = "JObj [(''config'', ?config), (''outputPath'', JStr ''/home/user/chart.png'')]"
  have adapted: "adapt_config ?config = Inr ?config"
    by code_simp
  have bad_path: "snd (resolve_output_path ?h ?config (get_prop ''outputPath'' ?bad)) =
      Inr ''/nowhere/chart.png''"
    by (simp add: resolve_output_path_def return_io_def get_prop_JObj)
  have good_path: "snd (resolve_output_path ?h ?config (get_prop ''outputPath'' ?good)) =
      Inr ''/home/user/chart.png''"
    by (simp add: resolve_output_path_def return_io_def get_prop_JObj)
  have bad_dir: "path_dirname ?h ''/nowhere/chart.png'' = ''/nowhere''"
    by simp
  have bad_events: "fst (download_chart ?h ?bad) = [Access ''/nowhere'']"
    by code_simp
  have "snd (download_chart ?h ?bad) =
      Inl (McpError InvalidParams ''Output directory does not exist or is not writable: /nowhere'')"
    using C8_validation_precedes_fetch [of ?h ?bad] adapted bad_path bad_dir
    by (simp add: get_prop_JObj)
  with bad_events have first: "download_chart ?h ?bad =
      ([Access ''/nowhere''],
       Inl (McpError InvalidParams ''Output directory does not exist or is not writable: /nowhere''))"
    by (cases "download_chart ?h ?bad") simp
  have second: "fst (download_chart ?h ?good) =
     [Access ''/home/user'',
      Fetch (generateChartUrl
        (JObj [(''type'', JStr ''pie''),
               (''data'', JObj [(''labels'', JArr []),
                                (''datasets'', JArr [JObj [(''label'', JStr ''''),
                                                           (''data'', JArr [JNum 1]),
                                                           (''backgroundColor'', JUndefined),
                                                           (''borderColor'', JUndefined)]])]),
               (''options'', JObj [])])),
      WriteFile ''/home/user/chart.png'' ''image'']"
    by code_simp
  then have "\<exists>e \<in> set (fst (download_chart ?h ?good)). is_fetch_or_write e"
    by simp
  with C8_validation_precedes_fetch [of ?h ?good]
  have "\<exists>n p c. adapt_config (get_prop ''config'' ?good) = Inr n \<and>
         snd (resolve_output_path ?h n (get_prop ''outputPath'' ?good)) = Inr p \<and>
         generateChartConfig n = Inr c"
    by blast
  then have third: "\<exists>chartConfig. generateChartConfig ?config = Inr chartConfig"
    using adapted by (auto simp: get_prop_JObj)
  from first second third show ?thesis by blast
qed

text \<open>The \<open>switch\<close> leaves the \<open>data\<close> member of the configuration as it was built.\<close>

lemma special_handling_data:
  assumes "special_handling (JStr t) datasets
             (JObj [(''type'', ty), (''data'', da), (''options'', JObj opts)]) = Inr config"
  shows "get_prop ''data'' config = da"
proof (cases "t \<in> {''radialGauge'', ''speedometer''}")
  case True
  then have "config =
      JObj (set_prop ''options''
              (JObj (set_prop ''plugins'' datalabels_plugins
                      (spread (get_prop ''options''
                         (JObj [(''type'', ty), (''data'', da), (''options'', JObj opts)])) [])))
              (own_props (JObj [(''type'', ty), (''data'', da), (''options'', JObj opts)])))"
    using assms by (simp add: special_handling_gauge split: if_splits)
  then have "get_prop ''data'' config =
      get_prop ''data'' (JObj [(''type'', ty), (''data'', da), (''options'', JObj opts)])"
    by (simp only: get_prop_set_prop own_props.simps) simp
  then show ?thesis
    by (simp add: get_prop_JObj)
next
  case False
  then have "config = JObj [(''type'', ty), (''data'', da), (''options'', JObj opts)]"
    using assms by (auto simp: special_handling_def split: if_splits sum.splits)
  then show ?thesis by (simp add: get_prop_JObj)
qed

lemma map_throwing_nth:
  "map_throwing f xs = Inr ys \<Longrightarrow>
     length ys = length xs \<and> (\<forall>i < length xs. f (xs ! i) = Inr (ys ! i))"
proof (induction xs arbitrary: ys)
  case Nil
  then show ?case by simp
next
  case (Cons x xs)
  then obtain y zs where y: "f x = Inr y" and zs: "map_throwing f xs = Inr zs" and ys: "ys = y # zs"
    by (auto split: sum.splits)
  from Cons.IH [OF zs] y ys show ?case
    by (auto simp: nth_Cons split: nat.splits)
qed

text \<open>
  The object that the \<open>datasets.map\<close> callback builds from a dataset that passes its
  check, member by member.
\<close>

lemma map_dataset_members:
  assumes "map_dataset dataset = Inr canonical"
    and "get_prop ''additionalConfig'' dataset = JObj extra \<or>
         \<not> truthy (get_prop ''additionalConfig'' dataset) \<and> extra = []"
    and "distinct (map fst extra)"
  shows "get_prop k canonical =
        (case map_of extra k of
           Some v \<Rightarrow> v
         | None \<Rightarrow>
            if k = ''label'' then
              (if truthy (get_prop ''label'' dataset) then get_prop ''label'' dataset else JStr [])
            else if k = ''data'' then get_prop ''data'' dataset
            else if k = ''backgroundColor'' then get_prop ''backgroundColor'' dataset
            else if k = ''borderColor'' then get_prop ''borderColor'' dataset
            else JUndefined)"
proof -
  have canonical: "canonical = JObj
     (spread (js_or (get_prop ''additionalConfig'' dataset) (JObj []))
          [(''label'', js_or (get_prop ''label'' dataset) (JStr [])),
           (''data'', get_prop ''data'' dataset),
           (''backgroundColor'', get_prop ''backgroundColor'' dataset),
           (''borderColor'', get_prop ''borderColor'' dataset)])"
    using assms(1) by (simp add: map_dataset_def split: if_splits)
  have extra: "own_props (js_or (get_prop ''additionalConfig'' dataset) (JObj [])) = extra"
    using assms(2) by (auto simp: js_or_def)
  show ?thesis
    unfolding canonical get_prop_JObj map_of_spread extra map_of_rev_distinct [OF assms(3)]
    by (simp add: map_add_def js_or_def split: option.splits)
qed

text \<open>
  C9. When normalization succeeds, the datasets of the configuration are the input's
  datasets, one canonical dataset for each and in the same order. Every input dataset
  has passed validation (it is truthy and so is its data member). If its
  additionalConfig member is absent (or falsy) or is a mapping, the canonical dataset
  is an object whose members are, for each name: the additionalConfig value under that
  name if there is one; otherwise, for \<open>label\<close>, the dataset's label, or the empty string
  when the label is absent (or falsy); for \<open>data\<close>, \<open>backgroundColor\<close> and \<open>borderColor\<close>,
  the dataset's own member unchanged, which for the colors may be \<open>undefined\<close>; and no
  other member.
\<close>

theorem C9_canonical_dataset:
  assumes "generateChartConfig args = Inr config"
  shows "\<exists>ds cds.
     get_prop ''datasets'' args = JArr ds \<and>
     get_prop ''datasets'' (get_prop ''data'' config) = JArr cds \<and>
     length cds = length ds \<and>
     (\<forall>i < length ds.
        truthy (ds ! i) \<and> truthy (get_prop ''data'' (ds ! i)) \<and>
        (\<exists>canonical. cds ! i = JObj canonical) \<and>
        (\<forall>extra.
           (get_prop ''additionalConfig'' (ds ! i) = JObj extra \<or>
            \<not> truthy (get_prop ''additionalConfig'' (ds ! i)) \<and> extra = []) \<and>
           distinct (map fst extra) \<longrightarrow>
           (\<forall>k. get_prop k (cds ! i) =
              (case map_of extra k of
                 Some v \<Rightarrow> v
               | None \<Rightarrow>
                  if k = ''label'' then
                    (if truthy (get_prop ''label'' (ds ! i)) then get_prop ''label'' (ds ! i)
                     else JStr [])
                  else if k = ''data'' then get_prop ''data'' (ds ! i)
                  else if k = ''backgroundColor'' then get_prop ''backgroundColor'' (ds ! i)
                  else if k = ''borderColor'' then get_prop ''borderColor'' (ds ! i)
                  else JUndefined))))"
proof -
  from assms obtain t ds cds where
    ds: "get_prop ''datasets'' args = JArr ds"
    and cds: "map_throwing map_dataset ds = Inr cds"
    and sh: "special_handling (JStr t) (JArr ds)
            (JObj [(''type'', JStr t),
                   (''data'', JObj [(''labels'', js_or (get_prop ''labels'' args) (JArr [])),
                                    (''datasets'', JArr cds)]),
                   (''options'',
                      JObj (spread (js_and (get_prop ''title'' args) (title_block (get_prop ''title'' args)))
                              (spread (default_to (get_prop ''options'' args) (JObj [])) [])))])
          = Inr config"
    by (rule generateChartConfig_Inr_cases)
  from special_handling_data [OF sh]
  have out: "get_prop ''datasets'' (get_prop ''data'' config) = JArr cds"
    by (simp add: get_prop_JObj)
  from map_throwing_nth [OF cds]
  have len: "length cds = length ds"
    and each: "\<And>i. i < length ds \<Longrightarrow> map_dataset (ds ! i) = Inr (cds ! i)"
    by simp_all
  have checked: "truthy (ds ! i) \<and> truthy (get_prop ''data'' (ds ! i)) \<and>
        (\<exists>canonical. cds ! i = JObj canonical)" if "i < length ds" for i
    using each [OF that, symmetric] by (auto simp: map_dataset_def split: if_splits)
  have members: "get_prop k (cds ! i) =
              (case map_of extra k of
                 Some v \<Rightarrow> v
               | None \<Rightarrow>
                  if k = ''label'' then
                    (if truthy (get_prop ''label'' (ds ! i)) then get_prop ''label'' (ds ! i)
                     else JStr [])
                  else if k = ''data'' then get_prop ''data'' (ds ! i)
                  else if k = ''backgroundColor'' then get_prop ''backgroundColor'' (ds ! i)
                  else if k = ''borderColor'' then get_prop ''borderColor'' (ds ! i)
                  else JUndefined)"
    if "i < length ds"
      and "get_prop ''additionalConfig'' (ds ! i) = JObj extra \<or>
            \<not> truthy (get_prop ''additionalConfig'' (ds ! i)) \<and> extra = []"
      and "distinct (map fst extra)" for i extra k
    using map_dataset_members [OF each [OF that(1)] that(2,3)] .
  from ds out len checked members show ?thesis
    by (intro exI [of _ ds] exI [of _ cds]) blast
qed

theorem C9_canonical_dataset_witness:
  "generateChartConfig
     (JObj [(''datasets'', JArr [JObj [(''data'', JArr [JNum 1, JNum 2, JNum 3])],
                                 JObj [(''label'', JStr ''b''), (''data'', JArr [JNum 4]),
                                       (''additionalConfig'',
                                          JObj [(''fill'', JBool False), (''data'', JArr [])])]]),
            (''type'', JStr ''bar'')]) =
   Inr (JObj [(''type'', JStr ''bar''),
              (''data'', JObj [(''labels'', JArr []),
                 (''datasets'', JArr [
                    JObj [(''label'', JStr []), (''data'', JArr [JNum 1, JNum 2, JNum 3]),
                          (''backgroundColor'', JUndefined), (''borderColor'', JUndefined)],
                    JObj [(''label'', JStr ''b''), (''data'', JArr []),
                          (''backgroundColor'', JUndefined), (''borderColor'', JUndefined),
                          (''fill'', JBool False)]])]),
              (''options'', JObj [])])
   \<and> (\<exists>ds cds.
       get_prop ''datasets''
         (JObj [(''datasets'', JArr [JObj [(''data'', JArr [JNum 1, JNum 2, JNum 3])],
                                 JObj [(''label'', JStr ''b''), (''data'', JArr [JNum 4]),
                                       (''additionalConfig'',
                                          JObj [(''fill'', JBool False), (''data'', JArr [])])]]),
                (''type'', JStr ''bar'')]) = JArr ds
       \<and> length cds = length ds
       \<and> get_prop ''label'' (cds ! 0) = JStr []
       \<and> get_prop ''data'' (cds ! 0) = JArr [JNum 1, JNum 2, JNum 3]
       \<and> get_prop ''borderColor'' (cds ! 0) = JUndefined
       \<and> get_prop ''label'' (cds ! 1) = JStr ''b''
       \<and> get_prop ''data'' (cds ! 1) = JArr []
       \<and> get_prop ''fill'' (cds ! 1) = JBool False)"
proof -
  let ?d0 = "JObj [(''data'', JArr [JNum 1, JNum 2, JNum 3])]"
  let ?d1 = "JObj [(''label'', JStr ''b''), (''data'', JArr [JNum 4]),
                   (''additionalConfig'', JObj [(''fill'', JBool False), (''data'', JArr [])])]"
  let ?args = "JObj [(''datasets'', JArr [?d0, ?d1]), (''type'', JStr ''bar'')]"
  have normalized: "generateChartConfig ?args =
   Inr (JObj [(''type'', JStr ''bar''),
              (''data'', JObj [(''labels'', JArr []),
                 (''datasets'', JArr [
                    JObj [(''label'', JStr []), (''data'', JArr [JNum 1, JNum 2, JNum 3]),
                          (''backgroundColor'', JUndefined), (''borderColor'', JUndefined)],
                    JObj [(''label'', JStr ''b''), (''data'', JArr []),
                          (''backgroundColor'', JUndefined), (''borderColor'', JUndefined),
                          (''fill'', JBool False)]])]),
              (''options'', JObj [])])"
    by code_simp
  from C9_canonical_dataset [OF normalized]
  obtain ds cds where ds: "get_prop ''datasets'' ?args = JArr ds"
    and len: "length cds = length ds"
    and each: "\<forall>i < length ds.
        truthy (ds ! i) \<and> truthy (get_prop ''data'' (ds ! i)) \<and>
        (\<exists>canonical. cds ! i = JObj canonical) \<and>
        (\<forall>extra.
           (get_prop ''additionalConfig'' (ds ! i) = JObj extra \<or>
            \<not> truthy (get_prop ''additionalConfig'' (ds ! i)) \<and> extra = []) \<and>
           distinct (map fst extra) \<longrightarrow>
           (\<forall>k. get_prop k (cds ! i) =
              (case map_of extra k of
                 Some v \<Rightarrow> v
               | None \<Rightarrow>
                  if k = ''label'' then
                    (if truthy (get_prop ''label'' (ds ! i)) then get_prop ''label'' (ds ! i)
                     else JStr [])
                  else if k = ''data'' then get_prop ''data'' (ds ! i)
                  else if k = ''backgroundColor'' then get_prop ''backgroundColor'' (ds ! i)
                  else if k = ''borderColor'' then get_prop ''borderColor'' (ds ! i)
                  else JUndefined)))"
    by (elim exE conjE)
  have members: "get_prop k (cds ! i) =
              (case map_of extra k of
                 Some v \<Rightarrow> v
               | None \<Rightarrow>
                  if k = ''label'' then
                    (if truthy (get_prop ''label'' (ds ! i)) then get_prop ''label'' (ds ! i)
                     else JStr [])
                  else if k = ''data'' then get_prop ''data'' (ds ! i)
                  else if k = ''backgroundColor'' then get_prop ''backgroundColor'' (ds ! i)
                  else if k = ''borderColor'' then get_prop ''borderColor'' (ds ! i)
                  else JUndefined)"
    if "i < length ds"
      and "get_prop ''additionalConfig'' (ds ! i) = JObj extra \<or>
            \<not> truthy (get_prop ''additionalConfig'' (ds ! i)) \<and> extra = []"
      and "distinct (map fst extra)" for i extra k
    using each [rule_format, OF that(1)] that(2,3) by (elim conjE allE [of _ extra]) simp
  from ds have ds_eq: "ds = [?d0, ?d1]"
    by (simp add: get_prop_JObj)
  have first: "get_prop k (cds ! 0) =
              (case map_of [] k of
                 Some v \<Rightarrow> v
               | None \<Rightarrow>
                  if k = ''label'' then
                    (if truthy (get_prop ''label'' ?d0) then get_prop ''label'' ?d0 else JStr [])
                  else if k = ''data'' then get_prop ''data'' ?d0
                  else if k = ''backgroundColor'' then get_prop ''backgroundColor'' ?d0
                  else if k = ''borderColor'' then get_prop ''borderColor'' ?d0
                  else JUndefined)" for k
    using members [of 0 "[]" k] by (simp add: ds_eq get_prop_JObj)
  have second: "get_prop k (cds ! 1) =
              (case map_of [(''fill'', JBool False), (''data'', JArr [])] k of
                 Some v \<Rightarrow> v
               | None \<Rightarrow>
                  if k = ''label'' then
                    (if truthy (get_prop ''label'' ?d1) then get_prop ''label'' ?d1 else JStr [])
                  else if k = ''data'' then get_prop ''data'' ?d1
                  else if k = ''backgroundColor'' then get_prop ''backgroundColor'' ?d1
                  else if k = ''borderColor'' then get_prop ''borderColor'' ?d1
                  else JUndefined)" for k
    using members [of 1 "[(''fill'', JBool False), (''data'', JArr [])]" k]
    by (simp add: ds_eq get_prop_JObj)
  from first [of "''label''"] first [of "''data''"] first [of "''borderColor''"]
    second [of "''label''"] second [of "''data''"] second [of "''fill''"]
  have "get_prop ''label'' (cds ! 0) = JStr []
       \<and> get_prop ''data'' (cds ! 0) = JArr [JNum 1, JNum 2, JNum 3]
       \<and> get_prop ''borderColor'' (cds ! 0) = JUndefined
       \<and> get_prop ''label'' (cds ! 1) = JStr ''b''
       \<and> get_prop ''data'' (cds ! 1) = JArr []
       \<and> get_prop ''fill'' (cds ! 1) = JBool False"
    by (simp add: get_prop_JObj)
  with normalized ds len show ?thesis by blast
qed

text \<open>
  C10. For every chart kind other than the two gauge kinds, a description whose datasets
  member is the empty array is normalized successfully, and the datasets of the resulting
  configuration are the empty array: only an absent datasets member or one that is not an
  array is rejected, although the message of that rejection asks for a non-empty array.
\<close>

theorem C10_empty_datasets_accepted:
  assumes "t \<in> {''bar'', ''line'', ''pie'', ''doughnut'', ''radar'', ''polarArea'', ''scatter'', ''bubble''}"
    and "get_prop ''type'' (JObj ps) = JStr t"
  shows "(get_prop ''datasets'' (JObj ps) = JArr [] \<longrightarrow>
            (\<exists>config. generateChartConfig (JObj ps) = Inr config \<and>
                 get_prop ''datasets'' (get_prop ''data'' config) = JArr []))
       \<and> (\<not> isArray (get_prop ''datasets'' (JObj ps)) \<longrightarrow>
            generateChartConfig (JObj ps) =
              Inl (McpError InvalidParams ''Datasets must be a non-empty array''))"
proof (intro conjI impI)
  assume ds: "get_prop ''datasets'' (JObj ps) = JArr []"
  have valid: "t \<in> set validTypes" using assms(1) by (auto simp: validTypes_def)
  define config where "config =
     JObj [(''type'', JStr t),
           (''data'', JObj [(''labels'', js_or (get_prop ''labels'' (JObj ps)) (JArr [])),
                            (''datasets'', JArr [])]),
           (''options'',
              JObj (spread (js_and (get_prop ''title'' (JObj ps)) (title_block (get_prop ''title'' (JObj ps))))
                      (spread (default_to (get_prop ''options'' (JObj ps)) (JObj [])) [])))]"
  have gen: "generateChartConfig (JObj ps) = special_handling (JStr t) (JArr []) config"
    using generateChartConfig_past_gates [OF _ assms(2) valid ds] by (simp add: config_def)
  have "special_handling (JStr t) (JArr []) config = Inr config"
    using assms(1) by (auto simp: special_handling_def)
  moreover have "get_prop ''datasets'' (get_prop ''data'' config) = JArr []"
    by (simp add: config_def get_prop_JObj)
  ultimately show "\<exists>config. generateChartConfig (JObj ps) = Inr config \<and>
                 get_prop ''datasets'' (get_prop ''data'' config) = JArr []"
    using gen by simp
next
  assume "\<not> isArray (get_prop ''datasets'' (JObj ps))"
  moreover have "truthy (get_prop ''type'' (JObj ps))"
    using assms by auto
  ultimately show "generateChartConfig (JObj ps) =
              Inl (McpError InvalidParams ''Datasets must be a non-empty array'')"
    by (simp add: generateChartConfig_def)
qed

theorem C10_empty_datasets_witness:
  "(\<exists>config. generateChartConfig (JObj [(''type'', JStr ''scatter''), (''datasets'', JArr [])]) = Inr config \<and>
        get_prop ''datasets'' (get_prop ''data'' config) = JArr [])
   \<and> generateChartConfig (JObj [(''type'', JStr ''scatter'')]) =
        Inl (McpError InvalidParams ''Datasets must be a non-empty array'')"
  using C10_empty_datasets_accepted
          [of "''scatter''" "[(''type'', JStr ''scatter''), (''datasets'', JArr [])]"]
        C10_empty_datasets_accepted [of "''scatter''" "[(''type'', JStr ''scatter'')]"]
  by (simp add: get_prop_JObj)

end
